theory Spec2Isabelle
  imports Complex_Main "HOL-Library.Sublist" "HOL-Library.Log_Nat"
begin

section \<open>Python text\<close>

text \<open>
  A Python \<open>str\<close> is a sequence of Unicode code points, so it is modelled as a list of
  natural numbers (the hint texts and the prompt of \<open>llm_agent.py\<close> hold code points
  above 255, which an 8-bit \<open>char\<close> cannot carry). \<open>U\<close> reads an ASCII literal.
\<close>

type_synonym pystr = "nat list"

definition U :: "string \<Rightarrow> pystr" where
  "U s = map of_char s"

text \<open>\<open>needle in haystack\<close> on strings: the needle occurs as a contiguous block.\<close>

fun py_in :: "pystr \<Rightarrow> pystr \<Rightarrow> bool" where
  "py_in xs [] = (xs = [])"
| "py_in xs (y # ys) = (prefix xs (y # ys) \<or> py_in xs ys)"

text \<open>
  \<open>str.isspace\<close> for one code point: the complete table of CPython's
  \<open>_PyUnicode_IsWhitespace\<close>.
\<close>

definition is_space :: "nat \<Rightarrow> bool" where
  "is_space c \<longleftrightarrow>
     (9 \<le> c \<and> c \<le> 13) \<or> (28 \<le> c \<and> c \<le> 32) \<or> c = 133 \<or> c = 160 \<or> c = 5760 \<or>
     (8192 \<le> c \<and> c \<le> 8202) \<or> c = 8232 \<or> c = 8233 \<or> c = 8239 \<or> c = 8287 \<or> c = 12288"

text \<open>\<open>s.strip()\<close>: whitespace removed at both ends.\<close>

definition strip :: "pystr \<Rightarrow> pystr" where
  "strip s = rev (dropWhile is_space (rev (dropWhile is_space s)))"

text \<open>The exceptions that the interpreter itself raises in the code below.\<close>

datatype py_fault = TypeError | AttributeError

subsection \<open>The character database\<close>

text \<open>
  The string methods consult the tables of the interpreter's character database. They
  are given here as in Unicode 14.0.0, the version that CPython 3.11 carries: a property
  is a list of inclusive ranges of code points.
\<close>

definition in_ranges :: "(nat \<times> nat) list \<Rightarrow> nat \<Rightarrow> bool" where
  "in_ranges rs c = list_ex (\<lambda>(lo, hi). lo \<le> c \<and> c \<le> hi) rs"

text \<open>
  The decimal digits (\<open>str.isdecimal\<close>). Every range holds the digits 0 to 9 in order,
  once or several times, so the value of a digit is its offset modulo 10.
\<close>

definition decimal_ranges :: "(nat \<times> nat) list" where
  "decimal_ranges =
     [(48, 57), (1632, 1641), (1776, 1785), (1984, 1993), (2406, 2415), (2534, 2543),
      (2662, 2671), (2790, 2799), (2918, 2927), (3046, 3055), (3174, 3183), (3302, 3311),
      (3430, 3439), (3558, 3567), (3664, 3673), (3792, 3801), (3872, 3881), (4160, 4169),
      (4240, 4249), (6112, 6121), (6160, 6169), (6470, 6479), (6608, 6617), (6784, 6793),
      (6800, 6809), (6992, 7001), (7088, 7097), (7232, 7241), (7248, 7257), (42528, 42537),
      (43216, 43225), (43264, 43273), (43472, 43481), (43504, 43513), (43600, 43609),
      (44016, 44025), (65296, 65305), (66720, 66729), (68912, 68921), (69734, 69743),
      (69872, 69881), (69942, 69951), (70096, 70105), (70384, 70393), (70736, 70745),
      (70864, 70873), (71248, 71257), (71360, 71369), (71472, 71481), (71904, 71913),
      (72016, 72025), (72784, 72793), (73040, 73049), (73120, 73129), (92768, 92777),
      (92864, 92873), (93008, 93017), (120782, 120831), (123200, 123209), (123632, 123641),
      (125264, 125273), (130032, 130041)]"

definition decimal_value :: "nat \<Rightarrow> nat option" where
  "decimal_value c =
     map_option (\<lambda>(lo, hi). (c - lo) mod 10)
       (find (\<lambda>(lo, hi). lo \<le> c \<and> c \<le> hi) decimal_ranges)"

text \<open>
  The digits of \<open>str.isdigit\<close>: the decimal digits, and superscripts, circled digits
  and the like.
\<close>

definition digit_ranges :: "(nat \<times> nat) list" where
  "digit_ranges =
     [(48, 57), (178, 179), (185, 185), (1632, 1641), (1776, 1785), (1984, 1993), (2406, 2415),
      (2534, 2543), (2662, 2671), (2790, 2799), (2918, 2927), (3046, 3055), (3174, 3183),
      (3302, 3311), (3430, 3439), (3558, 3567), (3664, 3673), (3792, 3801), (3872, 3881),
      (4160, 4169), (4240, 4249), (4969, 4977), (6112, 6121), (6160, 6169), (6470, 6479),
      (6608, 6618), (6784, 6793), (6800, 6809), (6992, 7001), (7088, 7097), (7232, 7241),
      (7248, 7257), (8304, 8304), (8308, 8313), (8320, 8329), (9312, 9320), (9332, 9340),
      (9352, 9360), (9450, 9450), (9461, 9469), (9471, 9471), (10102, 10110), (10112, 10120),
      (10122, 10130), (42528, 42537), (43216, 43225), (43264, 43273), (43472, 43481),
      (43504, 43513), (43600, 43609), (44016, 44025), (65296, 65305), (66720, 66729),
      (68160, 68163), (68912, 68921), (69216, 69224), (69714, 69722), (69734, 69743),
      (69872, 69881), (69942, 69951), (70096, 70105), (70384, 70393), (70736, 70745),
      (70864, 70873), (71248, 71257), (71360, 71369), (71472, 71481), (71904, 71913),
      (72016, 72025), (72784, 72793), (73040, 73049), (73120, 73129), (92768, 92777),
      (92864, 92873), (93008, 93017), (120782, 120831), (123200, 123209), (123632, 123641),
      (125264, 125273), (127232, 127242), (130032, 130041)]"

definition is_digit_cp :: "nat \<Rightarrow> bool" where
  "is_digit_cp c = in_ranges digit_ranges c"

text \<open>
  The cased and the case-ignorable characters (\<open>_PyUnicode_IsCased\<close> and
  \<open>_PyUnicode_IsCaseIgnorable\<close>).
\<close>

definition cased_ranges :: "(nat \<times> nat) list" where
  "cased_ranges =
     [(65, 90), (97, 122), (170, 170), (181, 181), (186, 186), (192, 214), (216, 246),
      (248, 442), (444, 447), (452, 659), (661, 696), (704, 705), (736, 740), (837, 837),
      (880, 883), (886, 887), (890, 893), (895, 895), (902, 902), (904, 906), (908, 908),
      (910, 929), (931, 1013), (1015, 1153), (1162, 1327), (1329, 1366), (1376, 1416),
      (4256, 4293), (4295, 4295), (4301, 4301), (4304, 4346), (4349, 4351), (5024, 5109),
      (5112, 5117), (7296, 7304), (7312, 7354), (7357, 7359), (7424, 7615), (7680, 7957),
      (7960, 7965), (7968, 8005), (8008, 8013), (8016, 8023), (8025, 8025), (8027, 8027),
      (8029, 8029), (8031, 8061), (8064, 8116), (8118, 8124), (8126, 8126), (8130, 8132),
      (8134, 8140), (8144, 8147), (8150, 8155), (8160, 8172), (8178, 8180), (8182, 8188),
      (8305, 8305), (8319, 8319), (8336, 8348), (8450, 8450), (8455, 8455), (8458, 8467),
      (8469, 8469), (8473, 8477), (8484, 8484), (8486, 8486), (8488, 8488), (8490, 8493),
      (8495, 8500), (8505, 8505), (8508, 8511), (8517, 8521), (8526, 8526), (8544, 8575),
      (8579, 8580), (9398, 9449), (11264, 11492), (11499, 11502), (11506, 11507), (11520, 11557),
      (11559, 11559), (11565, 11565), (42560, 42605), (42624, 42653), (42786, 42887),
      (42891, 42894), (42896, 42954), (42960, 42961), (42963, 42963), (42965, 42969),
      (42997, 42998), (43000, 43002), (43824, 43866), (43868, 43880), (43888, 43967),
      (64256, 64262), (64275, 64279), (65313, 65338), (65345, 65370), (66560, 66639),
      (66736, 66771), (66776, 66811), (66928, 66938), (66940, 66954), (66956, 66962),
      (66964, 66965), (66967, 66977), (66979, 66993), (66995, 67001), (67003, 67004),
      (67456, 67456), (67459, 67461), (67463, 67504), (67506, 67514), (68736, 68786),
      (68800, 68850), (71840, 71903), (93760, 93823), (119808, 119892), (119894, 119964),
      (119966, 119967), (119970, 119970), (119973, 119974), (119977, 119980), (119982, 119993),
      (119995, 119995), (119997, 120003), (120005, 120069), (120071, 120074), (120077, 120084),
      (120086, 120092), (120094, 120121), (120123, 120126), (120128, 120132), (120134, 120134),
      (120138, 120144), (120146, 120485), (120488, 120512), (120514, 120538), (120540, 120570),
      (120572, 120596), (120598, 120628), (120630, 120654), (120656, 120686), (120688, 120712),
      (120714, 120744), (120746, 120770), (120772, 120779), (122624, 122633), (122635, 122654),
      (125184, 125251), (127280, 127305), (127312, 127337), (127344, 127369)]"

definition is_cased :: "nat \<Rightarrow> bool" where
  "is_cased c = in_ranges cased_ranges c"

definition case_ignorable_ranges :: "(nat \<times> nat) list" where
  "case_ignorable_ranges =
     [(39, 39), (46, 46), (58, 58), (94, 94), (96, 96), (168, 168), (173, 173), (175, 175),
      (180, 180), (183, 184), (688, 879), (884, 885), (890, 890), (900, 901), (903, 903),
      (1155, 1161), (1369, 1369), (1375, 1375), (1425, 1469), (1471, 1471), (1473, 1474),
      (1476, 1477), (1479, 1479), (1524, 1524), (1536, 1541), (1552, 1562), (1564, 1564),
      (1600, 1600), (1611, 1631), (1648, 1648), (1750, 1757), (1759, 1768), (1770, 1773),
      (1807, 1807), (1809, 1809), (1840, 1866), (1958, 1968), (2027, 2037), (2042, 2042),
      (2045, 2045), (2070, 2093), (2137, 2139), (2184, 2184), (2192, 2193), (2200, 2207),
      (2249, 2306), (2362, 2362), (2364, 2364), (2369, 2376), (2381, 2381), (2385, 2391),
      (2402, 2403), (2417, 2417), (2433, 2433), (2492, 2492), (2497, 2500), (2509, 2509),
      (2530, 2531), (2558, 2558), (2561, 2562), (2620, 2620), (2625, 2626), (2631, 2632),
      (2635, 2637), (2641, 2641), (2672, 2673), (2677, 2677), (2689, 2690), (2748, 2748),
      (2753, 2757), (2759, 2760), (2765, 2765), (2786, 2787), (2810, 2815), (2817, 2817),
      (2876, 2876), (2879, 2879), (2881, 2884), (2893, 2893), (2901, 2902), (2914, 2915),
      (2946, 2946), (3008, 3008), (3021, 3021), (3072, 3072), (3076, 3076), (3132, 3132),
      (3134, 3136), (3142, 3144), (3146, 3149), (3157, 3158), (3170, 3171), (3201, 3201),
      (3260, 3260), (3263, 3263), (3270, 3270), (3276, 3277), (3298, 3299), (3328, 3329),
      (3387, 3388), (3393, 3396), (3405, 3405), (3426, 3427), (3457, 3457), (3530, 3530),
      (3538, 3540), (3542, 3542), (3633, 3633), (3636, 3642), (3654, 3662), (3761, 3761),
      (3764, 3772), (3782, 3782), (3784, 3789), (3864, 3865), (3893, 3893), (3895, 3895),
      (3897, 3897), (3953, 3966), (3968, 3972), (3974, 3975), (3981, 3991), (3993, 4028),
      (4038, 4038), (4141, 4144), (4146, 4151), (4153, 4154), (4157, 4158), (4184, 4185),
      (4190, 4192), (4209, 4212), (4226, 4226), (4229, 4230), (4237, 4237), (4253, 4253),
      (4348, 4348), (4957, 4959), (5906, 5908), (5938, 5939), (5970, 5971), (6002, 6003),
      (6068, 6069), (6071, 6077), (6086, 6086), (6089, 6099), (6103, 6103), (6109, 6109),
      (6155, 6159), (6211, 6211), (6277, 6278), (6313, 6313), (6432, 6434), (6439, 6440),
      (6450, 6450), (6457, 6459), (6679, 6680), (6683, 6683), (6742, 6742), (6744, 6750),
      (6752, 6752), (6754, 6754), (6757, 6764), (6771, 6780), (6783, 6783), (6823, 6823),
      (6832, 6862), (6912, 6915), (6964, 6964), (6966, 6970), (6972, 6972), (6978, 6978),
      (7019, 7027), (7040, 7041), (7074, 7077), (7080, 7081), (7083, 7085), (7142, 7142),
      (7144, 7145), (7149, 7149), (7151, 7153), (7212, 7219), (7222, 7223), (7288, 7293),
      (7376, 7378), (7380, 7392), (7394, 7400), (7405, 7405), (7412, 7412), (7416, 7417),
      (7468, 7530), (7544, 7544), (7579, 7679), (8125, 8125), (8127, 8129), (8141, 8143),
      (8157, 8159), (8173, 8175), (8189, 8190), (8203, 8207), (8216, 8217), (8228, 8228),
      (8231, 8231), (8234, 8238), (8288, 8292), (8294, 8303), (8305, 8305), (8319, 8319),
      (8336, 8348), (8400, 8432), (11388, 11389), (11503, 11505), (11631, 11631), (11647, 11647),
      (11744, 11775), (11823, 11823), (12293, 12293), (12330, 12333), (12337, 12341),
      (12347, 12347), (12441, 12446), (12540, 12542), (40981, 40981), (42232, 42237),
      (42508, 42508), (42607, 42610), (42612, 42621), (42623, 42623), (42652, 42655),
      (42736, 42737), (42752, 42785), (42864, 42864), (42888, 42890), (42994, 42996),
      (43000, 43001), (43010, 43010), (43014, 43014), (43019, 43019), (43045, 43046),
      (43052, 43052), (43204, 43205), (43232, 43249), (43263, 43263), (43302, 43309),
      (43335, 43345), (43392, 43394), (43443, 43443), (43446, 43449), (43452, 43453),
      (43471, 43471), (43493, 43494), (43561, 43566), (43569, 43570), (43573, 43574),
      (43587, 43587), (43596, 43596), (43632, 43632), (43644, 43644), (43696, 43696),
      (43698, 43700), (43703, 43704), (43710, 43711), (43713, 43713), (43741, 43741),
      (43756, 43757), (43763, 43764), (43766, 43766), (43867, 43871), (43881, 43883),
      (44005, 44005), (44008, 44008), (44013, 44013), (64286, 64286), (64434, 64450),
      (65024, 65039), (65043, 65043), (65056, 65071), (65106, 65106), (65109, 65109),
      (65279, 65279), (65287, 65287), (65294, 65294), (65306, 65306), (65342, 65342),
      (65344, 65344), (65392, 65392), (65438, 65439), (65507, 65507), (65529, 65531),
      (66045, 66045), (66272, 66272), (66422, 66426), (67456, 67461), (67463, 67504),
      (67506, 67514), (68097, 68099), (68101, 68102), (68108, 68111), (68152, 68154),
      (68159, 68159), (68325, 68326), (68900, 68903), (69291, 69292), (69446, 69456),
      (69506, 69509), (69633, 69633), (69688, 69702), (69744, 69744), (69747, 69748),
      (69759, 69761), (69811, 69814), (69817, 69818), (69821, 69821), (69826, 69826),
      (69837, 69837), (69888, 69890), (69927, 69931), (69933, 69940), (70003, 70003),
      (70016, 70017), (70070, 70078), (70089, 70092), (70095, 70095), (70191, 70193),
      (70196, 70196), (70198, 70199), (70206, 70206), (70367, 70367), (70371, 70378),
      (70400, 70401), (70459, 70460), (70464, 70464), (70502, 70508), (70512, 70516),
      (70712, 70719), (70722, 70724), (70726, 70726), (70750, 70750), (70835, 70840),
      (70842, 70842), (70847, 70848), (70850, 70851), (71090, 71093), (71100, 71101),
      (71103, 71104), (71132, 71133), (71219, 71226), (71229, 71229), (71231, 71232),
      (71339, 71339), (71341, 71341), (71344, 71349), (71351, 71351), (71453, 71455),
      (71458, 71461), (71463, 71467), (71727, 71735), (71737, 71738), (71995, 71996),
      (71998, 71998), (72003, 72003), (72148, 72151), (72154, 72155), (72160, 72160),
      (72193, 72202), (72243, 72248), (72251, 72254), (72263, 72263), (72273, 72278),
      (72281, 72283), (72330, 72342), (72344, 72345), (72752, 72758), (72760, 72765),
      (72767, 72767), (72850, 72871), (72874, 72880), (72882, 72883), (72885, 72886),
      (73009, 73014), (73018, 73018), (73020, 73021), (73023, 73029), (73031, 73031),
      (73104, 73105), (73109, 73109), (73111, 73111), (73459, 73460), (78896, 78904),
      (92912, 92916), (92976, 92982), (92992, 92995), (94031, 94031), (94095, 94111),
      (94176, 94177), (94179, 94180), (110576, 110579), (110581, 110587), (110589, 110590),
      (113821, 113822), (113824, 113827), (118528, 118573), (118576, 118598), (119143, 119145),
      (119155, 119170), (119173, 119179), (119210, 119213), (119362, 119364), (121344, 121398),
      (121403, 121452), (121461, 121461), (121476, 121476), (121499, 121503), (121505, 121519),
      (122880, 122886), (122888, 122904), (122907, 122913), (122915, 122916), (122918, 122922),
      (123184, 123197), (123566, 123566), (123628, 123631), (125136, 125142), (125252, 125259),
      (127995, 127999), (917505, 917505), (917536, 917631), (917760, 917999)]"

definition is_case_ignorable :: "nat \<Rightarrow> bool" where
  "is_case_ignorable c = in_ranges case_ignorable_ranges c"

text \<open>
  The case mappings that change a character. A run \<open>(first, last, step, image)\<close>
  maps \<open>first\<close> to \<open>image\<close>, and every \<open>step\<close>-th character up to \<open>last\<close> to the
  character at the same distance from \<open>image\<close>. The only character with a longer
  lower case is 304, and \<open>title_special\<close> lists the characters with a longer title
  case.
\<close>

definition run_image :: "(nat \<times> nat \<times> nat \<times> nat) list \<Rightarrow> nat \<Rightarrow> nat option" where
  "run_image runs c =
     map_option (\<lambda>(lo, hi, st, img). img + (c - lo))
       (find (\<lambda>(lo, hi, st, img). lo \<le> c \<and> c \<le> hi \<and> (c - lo) mod st = 0) runs)"

definition lower_runs :: "(nat \<times> nat \<times> nat \<times> nat) list" where
  "lower_runs =
     [(65, 90, 1, 97), (192, 214, 1, 224), (216, 222, 1, 248), (256, 302, 2, 257),
      (306, 310, 2, 307), (313, 327, 2, 314), (330, 374, 2, 331), (376, 376, 1, 255),
      (377, 381, 2, 378), (385, 385, 1, 595), (386, 388, 2, 387), (390, 390, 1, 596),
      (391, 391, 1, 392), (393, 394, 1, 598), (395, 395, 1, 396), (398, 398, 1, 477),
      (399, 399, 1, 601), (400, 400, 1, 603), (401, 401, 1, 402), (403, 403, 1, 608),
      (404, 404, 1, 611), (406, 406, 1, 617), (407, 407, 1, 616), (408, 408, 1, 409),
      (412, 412, 1, 623), (413, 413, 1, 626), (415, 415, 1, 629), (416, 420, 2, 417),
      (422, 422, 1, 640), (423, 423, 1, 424), (425, 425, 1, 643), (428, 428, 1, 429),
      (430, 430, 1, 648), (431, 431, 1, 432), (433, 434, 1, 650), (435, 437, 2, 436),
      (439, 439, 1, 658), (440, 440, 1, 441), (444, 444, 1, 445), (452, 452, 1, 454),
      (453, 453, 1, 454), (455, 455, 1, 457), (456, 456, 1, 457), (458, 458, 1, 460),
      (459, 475, 2, 460), (478, 494, 2, 479), (497, 497, 1, 499), (498, 500, 2, 499),
      (502, 502, 1, 405), (503, 503, 1, 447), (504, 542, 2, 505), (544, 544, 1, 414),
      (546, 562, 2, 547), (570, 570, 1, 11365), (571, 571, 1, 572), (573, 573, 1, 410),
      (574, 574, 1, 11366), (577, 577, 1, 578), (579, 579, 1, 384), (580, 580, 1, 649),
      (581, 581, 1, 652), (582, 590, 2, 583), (880, 882, 2, 881), (886, 886, 1, 887),
      (895, 895, 1, 1011), (902, 902, 1, 940), (904, 906, 1, 941), (908, 908, 1, 972),
      (910, 911, 1, 973), (913, 929, 1, 945), (931, 939, 1, 963), (975, 975, 1, 983),
      (984, 1006, 2, 985), (1012, 1012, 1, 952), (1015, 1015, 1, 1016), (1017, 1017, 1, 1010),
      (1018, 1018, 1, 1019), (1021, 1023, 1, 891), (1024, 1039, 1, 1104), (1040, 1071, 1, 1072),
      (1120, 1152, 2, 1121), (1162, 1214, 2, 1163), (1216, 1216, 1, 1231), (1217, 1229, 2, 1218),
      (1232, 1326, 2, 1233), (1329, 1366, 1, 1377), (4256, 4293, 1, 11520),
      (4295, 4295, 1, 11559), (4301, 4301, 1, 11565), (5024, 5103, 1, 43888),
      (5104, 5109, 1, 5112), (7312, 7354, 1, 4304), (7357, 7359, 1, 4349), (7680, 7828, 2, 7681),
      (7838, 7838, 1, 223), (7840, 7934, 2, 7841), (7944, 7951, 1, 7936), (7960, 7965, 1, 7952),
      (7976, 7983, 1, 7968), (7992, 7999, 1, 7984), (8008, 8013, 1, 8000), (8025, 8031, 2, 8017),
      (8040, 8047, 1, 8032), (8072, 8079, 1, 8064), (8088, 8095, 1, 8080), (8104, 8111, 1, 8096),
      (8120, 8121, 1, 8112), (8122, 8123, 1, 8048), (8124, 8124, 1, 8115), (8136, 8139, 1, 8050),
      (8140, 8140, 1, 8131), (8152, 8153, 1, 8144), (8154, 8155, 1, 8054), (8168, 8169, 1, 8160),
      (8170, 8171, 1, 8058), (8172, 8172, 1, 8165), (8184, 8185, 1, 8056), (8186, 8187, 1, 8060),
      (8188, 8188, 1, 8179), (8486, 8486, 1, 969), (8490, 8490, 1, 107), (8491, 8491, 1, 229),
      (8498, 8498, 1, 8526), (8544, 8559, 1, 8560), (8579, 8579, 1, 8580), (9398, 9423, 1, 9424),
      (11264, 11311, 1, 11312), (11360, 11360, 1, 11361), (11362, 11362, 1, 619),
      (11363, 11363, 1, 7549), (11364, 11364, 1, 637), (11367, 11371, 2, 11368),
      (11373, 11373, 1, 593), (11374, 11374, 1, 625), (11375, 11375, 1, 592),
      (11376, 11376, 1, 594), (11378, 11378, 1, 11379), (11381, 11381, 1, 11382),
      (11390, 11391, 1, 575), (11392, 11490, 2, 11393), (11499, 11501, 2, 11500),
      (11506, 11506, 1, 11507), (42560, 42604, 2, 42561), (42624, 42650, 2, 42625),
      (42786, 42798, 2, 42787), (42802, 42862, 2, 42803), (42873, 42875, 2, 42874),
      (42877, 42877, 1, 7545), (42878, 42886, 2, 42879), (42891, 42891, 1, 42892),
      (42893, 42893, 1, 613), (42896, 42898, 2, 42897), (42902, 42920, 2, 42903),
      (42922, 42922, 1, 614), (42923, 42923, 1, 604), (42924, 42924, 1, 609),
      (42925, 42925, 1, 620), (42926, 42926, 1, 618), (42928, 42928, 1, 670),
      (42929, 42929, 1, 647), (42930, 42930, 1, 669), (42931, 42931, 1, 43859),
      (42932, 42946, 2, 42933), (42948, 42948, 1, 42900), (42949, 42949, 1, 642),
      (42950, 42950, 1, 7566), (42951, 42953, 2, 42952), (42960, 42960, 1, 42961),
      (42966, 42968, 2, 42967), (42997, 42997, 1, 42998), (65313, 65338, 1, 65345),
      (66560, 66599, 1, 66600), (66736, 66771, 1, 66776), (66928, 66964, 2, 66967),
      (66929, 66937, 2, 66968), (66941, 66953, 2, 66980), (66957, 66961, 2, 66996),
      (66965, 66965, 1, 67004), (68736, 68786, 1, 68800), (71840, 71871, 1, 71872),
      (93760, 93791, 1, 93792), (125184, 125217, 1, 125218)]"

definition to_lower_full :: "nat \<Rightarrow> pystr" where
  "to_lower_full c =
     (if c = 304 then [105, 775]
      else case run_image lower_runs c of Some l \<Rightarrow> [l] | None \<Rightarrow> [c])"

definition title_runs :: "(nat \<times> nat \<times> nat \<times> nat) list" where
  "title_runs =
     [(97, 122, 1, 65), (181, 181, 1, 924), (224, 246, 1, 192), (248, 254, 1, 216),
      (255, 255, 1, 376), (257, 303, 2, 256), (305, 305, 1, 73), (307, 311, 2, 306),
      (314, 328, 2, 313), (331, 375, 2, 330), (378, 382, 2, 377), (383, 383, 1, 83),
      (384, 384, 1, 579), (387, 389, 2, 386), (392, 392, 1, 391), (396, 396, 1, 395),
      (402, 402, 1, 401), (405, 405, 1, 502), (409, 409, 1, 408), (410, 410, 1, 573),
      (414, 414, 1, 544), (417, 421, 2, 416), (424, 424, 1, 423), (429, 429, 1, 428),
      (432, 432, 1, 431), (436, 438, 2, 435), (441, 441, 1, 440), (445, 445, 1, 444),
      (447, 447, 1, 503), (452, 452, 1, 453), (454, 454, 1, 453), (455, 455, 1, 456),
      (457, 457, 1, 456), (458, 458, 1, 459), (460, 476, 2, 459), (477, 477, 1, 398),
      (479, 495, 2, 478), (497, 497, 1, 498), (499, 501, 2, 498), (505, 543, 2, 504),
      (547, 563, 2, 546), (572, 572, 1, 571), (575, 576, 1, 11390), (578, 578, 1, 577),
      (583, 591, 2, 582), (592, 592, 1, 11375), (593, 593, 1, 11373), (594, 594, 1, 11376),
      (595, 595, 1, 385), (596, 596, 1, 390), (598, 599, 1, 393), (601, 601, 1, 399),
      (603, 603, 1, 400), (604, 604, 1, 42923), (608, 608, 1, 403), (609, 609, 1, 42924),
      (611, 611, 1, 404), (613, 613, 1, 42893), (614, 614, 1, 42922), (616, 616, 1, 407),
      (617, 617, 1, 406), (618, 618, 1, 42926), (619, 619, 1, 11362), (620, 620, 1, 42925),
      (623, 623, 1, 412), (625, 625, 1, 11374), (626, 626, 1, 413), (629, 629, 1, 415),
      (637, 637, 1, 11364), (640, 640, 1, 422), (642, 642, 1, 42949), (643, 643, 1, 425),
      (647, 647, 1, 42929), (648, 648, 1, 430), (649, 649, 1, 580), (650, 651, 1, 433),
      (652, 652, 1, 581), (658, 658, 1, 439), (669, 669, 1, 42930), (670, 670, 1, 42928),
      (837, 837, 1, 921), (881, 883, 2, 880), (887, 887, 1, 886), (891, 893, 1, 1021),
      (940, 940, 1, 902), (941, 943, 1, 904), (945, 961, 1, 913), (962, 962, 1, 931),
      (963, 971, 1, 931), (972, 972, 1, 908), (973, 974, 1, 910), (976, 976, 1, 914),
      (977, 977, 1, 920), (981, 981, 1, 934), (982, 982, 1, 928), (983, 983, 1, 975),
      (985, 1007, 2, 984), (1008, 1008, 1, 922), (1009, 1009, 1, 929), (1010, 1010, 1, 1017),
      (1011, 1011, 1, 895), (1013, 1013, 1, 917), (1016, 1016, 1, 1015), (1019, 1019, 1, 1018),
      (1072, 1103, 1, 1040), (1104, 1119, 1, 1024), (1121, 1153, 2, 1120), (1163, 1215, 2, 1162),
      (1218, 1230, 2, 1217), (1231, 1231, 1, 1216), (1233, 1327, 2, 1232), (1377, 1414, 1, 1329),
      (5112, 5117, 1, 5104), (7296, 7296, 1, 1042), (7297, 7297, 1, 1044), (7298, 7298, 1, 1054),
      (7299, 7300, 1, 1057), (7301, 7301, 1, 1058), (7302, 7302, 1, 1066), (7303, 7303, 1, 1122),
      (7304, 7304, 1, 42570), (7545, 7545, 1, 42877), (7549, 7549, 1, 11363),
      (7566, 7566, 1, 42950), (7681, 7829, 2, 7680), (7835, 7835, 1, 7776),
      (7841, 7935, 2, 7840), (7936, 7943, 1, 7944), (7952, 7957, 1, 7960), (7968, 7975, 1, 7976),
      (7984, 7991, 1, 7992), (8000, 8005, 1, 8008), (8017, 8023, 2, 8025), (8032, 8039, 1, 8040),
      (8048, 8049, 1, 8122), (8050, 8053, 1, 8136), (8054, 8055, 1, 8154), (8056, 8057, 1, 8184),
      (8058, 8059, 1, 8170), (8060, 8061, 1, 8186), (8064, 8071, 1, 8072), (8080, 8087, 1, 8088),
      (8096, 8103, 1, 8104), (8112, 8113, 1, 8120), (8115, 8115, 1, 8124), (8126, 8126, 1, 921),
      (8131, 8131, 1, 8140), (8144, 8145, 1, 8152), (8160, 8161, 1, 8168), (8165, 8165, 1, 8172),
      (8179, 8179, 1, 8188), (8526, 8526, 1, 8498), (8560, 8575, 1, 8544), (8580, 8580, 1, 8579),
      (9424, 9449, 1, 9398), (11312, 11359, 1, 11264), (11361, 11361, 1, 11360),
      (11365, 11365, 1, 570), (11366, 11366, 1, 574), (11368, 11372, 2, 11367),
      (11379, 11379, 1, 11378), (11382, 11382, 1, 11381), (11393, 11491, 2, 11392),
      (11500, 11502, 2, 11499), (11507, 11507, 1, 11506), (11520, 11557, 1, 4256),
      (11559, 11559, 1, 4295), (11565, 11565, 1, 4301), (42561, 42605, 2, 42560),
      (42625, 42651, 2, 42624), (42787, 42799, 2, 42786), (42803, 42863, 2, 42802),
      (42874, 42876, 2, 42873), (42879, 42887, 2, 42878), (42892, 42892, 1, 42891),
      (42897, 42899, 2, 42896), (42900, 42900, 1, 42948), (42903, 42921, 2, 42902),
      (42933, 42947, 2, 42932), (42952, 42954, 2, 42951), (42961, 42961, 1, 42960),
      (42967, 42969, 2, 42966), (42998, 42998, 1, 42997), (43859, 43859, 1, 42931),
      (43888, 43967, 1, 5024), (65345, 65370, 1, 65313), (66600, 66639, 1, 66560),
      (66776, 66811, 1, 66736), (66967, 67003, 2, 66928), (66968, 66976, 2, 66929),
      (66980, 66992, 2, 66941), (66996, 67000, 2, 66957), (67004, 67004, 1, 66965),
      (68800, 68850, 1, 68736), (71872, 71903, 1, 71840), (93792, 93823, 1, 93760),
      (125218, 125251, 1, 125184)]"

definition title_special :: "(nat \<times> nat list) list" where
  "title_special =
     [(223, [83, 115]), (329, [700, 78]), (496, [74, 780]), (912, [921, 776, 769]),
      (944, [933, 776, 769]), (1415, [1333, 1410]), (7830, [72, 817]), (7831, [84, 776]),
      (7832, [87, 778]), (7833, [89, 778]), (7834, [65, 702]), (8016, [933, 787]),
      (8018, [933, 787, 768]), (8020, [933, 787, 769]), (8022, [933, 787, 834]),
      (8114, [8122, 837]), (8116, [902, 837]), (8118, [913, 834]), (8119, [913, 834, 837]),
      (8130, [8138, 837]), (8132, [905, 837]), (8134, [919, 834]), (8135, [919, 834, 837]),
      (8146, [921, 776, 768]), (8147, [921, 776, 769]), (8150, [921, 834]),
      (8151, [921, 776, 834]), (8162, [933, 776, 768]), (8163, [933, 776, 769]),
      (8164, [929, 787]), (8166, [933, 834]), (8167, [933, 776, 834]), (8178, [8186, 837]),
      (8180, [911, 837]), (8182, [937, 834]), (8183, [937, 834, 837]), (64256, [70, 102]),
      (64257, [70, 105]), (64258, [70, 108]), (64259, [70, 102, 105]), (64260, [70, 102, 108]),
      (64261, [83, 116]), (64262, [83, 116]), (64275, [1348, 1398]), (64276, [1348, 1381]),
      (64277, [1348, 1387]), (64278, [1358, 1398]), (64279, [1348, 1389])]"

definition to_title_full :: "nat \<Rightarrow> pystr" where
  "to_title_full c =
     (case map_of title_special c of
        Some ts \<Rightarrow> ts
      | None \<Rightarrow> (case run_image title_runs c of Some t \<Rightarrow> [t] | None \<Rightarrow> [c]))"

subsection \<open>Case conversion\<close>

text \<open>
  \<open>lower_ucs4\<close> of CPython: the lower case of the character \<open>c\<close> that stands between
  \<open>left\<close> (the characters in front of it, nearest first) and \<open>right\<close>. A capital
  sigma (931) becomes the final sigma 962 when, case-ignorable characters skipped, a
  cased character precedes it and none follows, else the sigma 963.
\<close>

definition final_sigma :: "pystr \<Rightarrow> pystr \<Rightarrow> nat" where
  "final_sigma left right =
     (let b = dropWhile is_case_ignorable left; a = dropWhile is_case_ignorable right
      in if b \<noteq> [] \<and> is_cased (hd b) \<and> (a = [] \<or> \<not> is_cased (hd a)) then 962 else 963)"

definition lower_ucs4 :: "pystr \<Rightarrow> nat \<Rightarrow> pystr \<Rightarrow> pystr" where
  "lower_ucs4 left c right = (if c = 931 then [final_sigma left right] else to_lower_full c)"

text \<open>\<open>str.lower\<close>.\<close>

fun lower_from :: "pystr \<Rightarrow> pystr \<Rightarrow> pystr" where
  "lower_from left [] = []"
| "lower_from left (c # cs) = lower_ucs4 left c cs @ lower_from (c # left) cs"

definition lower :: "pystr \<Rightarrow> pystr" where
  "lower s = lower_from [] s"

text \<open>
  \<open>str.title\<close>: a character that follows a cased character is lowered, any other
  character gets its title case.
\<close>

fun title_from :: "bool \<Rightarrow> pystr \<Rightarrow> pystr \<Rightarrow> pystr" where
  "title_from previous_is_cased left [] = []"
| "title_from previous_is_cased left (c # cs) =
     (if previous_is_cased then lower_ucs4 left c cs else to_title_full c) @
     title_from (is_cased c) (c # left) cs"

definition title :: "pystr \<Rightarrow> pystr" where
  "title s = title_from False [] s"

section \<open>The finding reasoner (llm\_agent.py)\<close>

subsection \<open>Exceptions and the outside world\<close>

text \<open>
  An exception is kept with the text \<open>str(e)\<close> gives. \<open>RuntimeError\<close> is what
  \<open>_chat\<close> raises itself; \<open>ApiError\<close> stands for whatever the client library raises.
\<close>

datatype py_exn = RuntimeError pystr | ApiError pystr

fun exn_str :: "py_exn \<Rightarrow> pystr" where
  "exn_str (RuntimeError m) = m"
| "exn_str (ApiError m) = m"

text \<open>
  The module globals: \<open>USE_LLM\<close>, and the remote endpoint behind
  \<open>client.chat.completions.create\<close>. The endpoint is an oracle: \<open>create env k p\<close> is
  the outcome of the request number \<open>k\<close> (counted from 0) when it carries the prompt
  \<open>p\<close>: the exception raised, or \<open>resp.choices[0].message.content\<close>.
\<close>

record llm_env =
  use_llm :: bool
  create :: "nat \<Rightarrow> pystr \<Rightarrow> py_exn + pystr"

text \<open>
  What the reasoning pass does to the world, oldest event first: the prompts of the
  invocations of \<open>_chat\<close>, the prompts of the requests sent to the endpoint, and
  the arguments of \<open>time.sleep\<close>.
\<close>

record llm_world =
  chat_calls :: "pystr list"
  api_calls :: "pystr list"
  sleeps :: "nat list"

definition world0 :: llm_world where
  "world0 = \<lparr>chat_calls = [], api_calls = [], sleeps = []\<rparr>"

subsection \<open>The chat helper\<close>

text \<open>
  The \<open>for _ in range(retries)\<close> loop of \<open>_chat\<close>, with the attempts left and the
  current delay. Leaving the loop raises \<open>RuntimeError("LLM_RATE_LIMIT")\<close>.
\<close>

definition is_rate_error :: "py_exn \<Rightarrow> bool" where
  "is_rate_error e \<longleftrightarrow>
     (let msg = lower (exn_str e) in py_in (U ''rate'') msg \<or> py_in (U ''quota'') msg)"

fun chat_attempts ::
  "llm_env \<Rightarrow> pystr \<Rightarrow> nat \<Rightarrow> nat \<Rightarrow> llm_world \<Rightarrow> (py_exn + pystr) \<times> llm_world" where
  "chat_attempts env prompt 0 delay w = (Inl (RuntimeError (U ''LLM_RATE_LIMIT'')), w)"
| "chat_attempts env prompt (Suc k) delay w =
     (let w1 = w\<lparr>api_calls := api_calls w @ [prompt]\<rparr> in
      case create env (length (api_calls w)) prompt of
        Inr content \<Rightarrow> (Inr (strip content), w1)
      | Inl e \<Rightarrow>
          if is_rate_error e
          then chat_attempts env prompt k (min (delay * 2) 16) (w1\<lparr>sleeps := sleeps w1 @ [delay]\<rparr>)
          else (Inl e, w1))"

definition chat ::
  "llm_env \<Rightarrow> pystr \<Rightarrow> nat \<Rightarrow> llm_world \<Rightarrow> (py_exn + pystr) \<times> llm_world" where
  "chat env prompt retries w =
     (let w0 = w\<lparr>chat_calls := chat_calls w @ [prompt]\<rparr> in
      if \<not> use_llm env then (Inl (RuntimeError (U ''LLM_DISABLED'')), w0)
      else chat_attempts env prompt retries 2 w0)"

subsection \<open>Findings and suggestions\<close>

text \<open>
  The analyzers' JSON, with the types of the tools' output formats. A key that may be
  absent is an \<open>option\<close>; \<open>d.get(k, "")\<close> then gives the empty string.
  A line number is an integer when present, so the \<open>line\<close> of a suggestion is an
  integer or the default \<open>""\<close>.
\<close>

datatype pyval = PInt int | PStr pystr

fun str_nat :: "nat \<Rightarrow> pystr" where
  "str_nat n = (if n < 10 then [48 + n] else str_nat (n div 10) @ [48 + n mod 10])"

declare str_nat.simps [simp del]

definition str_int :: "int \<Rightarrow> pystr" where
  "str_int i = (if i < 0 then 45 # str_nat (nat (- i)) else str_nat (nat i))"

text \<open>\<open>str(v)\<close>, as an f-string formats a value.\<close>

fun py_str :: "pyval \<Rightarrow> pystr" where
  "py_str (PInt i) = str_int i"
| "py_str (PStr s) = s"

definition get_str :: "pystr option \<Rightarrow> pystr" where
  "get_str v = (case v of None \<Rightarrow> [] | Some s \<Rightarrow> s)"

definition get_int :: "int option \<Rightarrow> pyval" where
  "get_int v = (case v of None \<Rightarrow> PStr [] | Some n \<Rightarrow> PInt n)"

record pylint_issue =
  pi_message :: "pystr option"
  pi_line :: "int option"
  pi_symbol :: "pystr option"

record pylint_entry =
  pe_file :: pystr
  pe_issues :: "pylint_issue list"

record bandit_issue =
  bi_filename :: "pystr option"
  bi_line_number :: "int option"
  bi_issue_text :: "pystr option"

record radon_item =
  ri_name :: "pystr option"
  ri_rank :: "pystr option"
  ri_lineno :: "int option"

text \<open>
  What \<open>radon cc -j\<close> reports for one file: the list of its blocks, or, for a file
  that it cannot parse, the object \<open>{"error": message}\<close>.
\<close>

datatype radon_entry = Blocks "radon_item list" | ErrorObject pystr

text \<open>
  The \<open>analysis\<close> dictionary as the reasoning pass reads it:
  \<open>analysis.get("pylint", [])\<close>, \<open>analysis.get("bandit", {}).get("results", [])\<close> and
  \<open>list(analysis.get("radon", {}).items())\<close>, the last in the dictionary's order.
\<close>

record analysis =
  pylint :: "pylint_entry list"
  bandit_results :: "bandit_issue list"
  radon :: "(pystr \<times> radon_entry) list"

record suggestion =
  s_type :: pystr
  s_file :: pystr
  s_line :: pyval
  s_message :: pystr
  s_suggestion :: pystr

text \<open>
  \<open>offline_hint\<close> receives the finding's dictionary and reads \<open>issue.get("message")\<close>.
  Only pylint's messages have that key: bandit's results and radon's blocks have none.
\<close>

datatype issue = PylintIssue pylint_issue | BanditIssue bandit_issue | RadonItem radon_item

fun issue_message :: "issue \<Rightarrow> pystr option" where
  "issue_message (PylintIssue i) = pi_message i"
| "issue_message (BanditIssue i) = None"
| "issue_message (RadonItem i) = None"

definition offline_hint :: "issue \<Rightarrow> pystr" where
  "offline_hint iss =
     (let msg = lower (get_str (issue_message iss)) in
      if py_in (U ''line too long'') msg
        then U ''Keep lines '' @ [8804] @ U '' 100 chars. Break long expressions or strings.''
      else if py_in (U ''missing module docstring'') msg
        then U ''Add a top-level docstring describing purpose & usage.''
      else if py_in (U ''missing class docstring'') msg
        then U ''Add a short docstring summarizing the class.''
      else if py_in (U ''wildcard import'') msg
        then U ''Avoid 'from X import *'; import only needed names.''
      else if py_in (U ''unable to import'') msg
        then U ''Install or correctly reference the missing module.''
      else U ''Review and refactor for clarity; follow PEP-8 and security best practices.'')"

definition build_prompt :: "pystr \<Rightarrow> pystr \<Rightarrow> pyval \<Rightarrow> pystr \<Rightarrow> pystr" where
  "build_prompt file_path msg line symbol =
     U ''File: '' @ file_path @ U ''\<newline>Line: '' @ py_str line @ U ''\<newline>Issue: '' @ msg @
     U ''\<newline>Symbol: '' @ symbol @ U ''\<newline>\<newline>'' @
     U ''Explain briefly why it'' @ [8217] @ U ''s a problem and give a minimal safe fix.''"

subsection \<open>The reasoning pass\<close>

text \<open>
  The \<open>try\<close> block that the three loops of \<open>reason_over_findings\<close> share word for
  word: with budget left, \<open>_chat(prompt)\<close>, else the offline hint; then
  \<open>llm_budget -= 1\<close>. An exception of \<open>_chat\<close> leaves the block before the
  decrement, and the handler takes the offline hint.
\<close>

definition suggest ::
  "llm_env \<Rightarrow> pystr \<Rightarrow> issue \<Rightarrow> int \<times> llm_world \<Rightarrow> pystr \<times> int \<times> llm_world" where
  "suggest env prompt iss bw =
     (case bw of (budget, w) \<Rightarrow>
        if budget > 0 then
          (case chat env prompt 3 w of
             (Inr s, w') \<Rightarrow> (s, budget - 1, w')
           | (Inl e, w') \<Rightarrow> (offline_hint iss, budget, w'))
        else (offline_hint iss, budget - 1, w))"

text \<open>
  The variables of \<open>reason_over_findings\<close> and the world; \<open>raised\<close> is the exception
  that has ended the pass, if there is one.
\<close>

record reason_state =
  suggestions :: "suggestion list"
  llm_budget :: int
  world :: llm_world
  raised :: "py_fault option"

text \<open>\<open>xs[:n]\<close>: a negative bound counts from the end.\<close>

definition slice_to :: "int \<Rightarrow> 'a list \<Rightarrow> 'a list" where
  "slice_to n xs = (if 0 \<le> n then take (nat n) xs else take (length xs - nat (- n)) xs)"

definition emit ::
  "llm_env \<Rightarrow> pystr \<Rightarrow> issue \<Rightarrow> (pystr \<Rightarrow> suggestion) \<Rightarrow> reason_state \<Rightarrow> reason_state" where
  "emit env prompt iss mk s =
     (case suggest env prompt iss (llm_budget s, world s) of
        (text, b, w) \<Rightarrow> s\<lparr>suggestions := suggestions s @ [mk text], llm_budget := b, world := w\<rparr>)"

definition pylint_step :: "llm_env \<Rightarrow> pystr \<Rightarrow> reason_state \<Rightarrow> pylint_issue \<Rightarrow> reason_state" where
  "pylint_step env f s iss =
     (let msg = get_str (pi_message iss); line = get_int (pi_line iss);
          sym = get_str (pi_symbol iss);
          prompt = build_prompt f msg line sym
      in emit env prompt (PylintIssue iss)
           (\<lambda>t. \<lparr>s_type = U ''pylint'', s_file = f, s_line = line, s_message = msg,
                 s_suggestion = t\<rparr>) s)"

definition bandit_step :: "llm_env \<Rightarrow> reason_state \<Rightarrow> bandit_issue \<Rightarrow> reason_state" where
  "bandit_step env s iss =
     (let f = get_str (bi_filename iss); ln = get_int (bi_line_number iss);
          msg = get_str (bi_issue_text iss);
          prompt = U ''Security issue in '' @ f @ U '':'' @ py_str ln @ U ''\<newline>'' @ msg @
                   U ''\<newline>Explain risk + safe fix.''
      in emit env prompt (BanditIssue iss)
           (\<lambda>t. \<lparr>s_type = U ''bandit'', s_file = f, s_line = ln, s_message = msg,
                 s_suggestion = t\<rparr>) s)"

definition radon_step :: "llm_env \<Rightarrow> pystr \<Rightarrow> reason_state \<Rightarrow> radon_item \<Rightarrow> reason_state" where
  "radon_step env f s it =
     (let r = get_str (ri_rank it); ln = get_int (ri_lineno it);
          prompt = f @ U '':'' @ py_str ln @ U '' has complexity rank '' @ r @
                   U ''. Suggest a refactor outline.''
      in emit env prompt (RadonItem it)
           (\<lambda>t. \<lparr>s_type = U ''radon'', s_file = f, s_line = ln,
                 s_message = U ''Complexity '' @ r, s_suggestion = t\<rparr>) s)"

text \<open>
  The loop over the first three files of radon's report. \<open>items[:2]\<close> stands in the
  header of the inner loop, outside every \<open>try\<close>: on the object of a file that radon
  could not parse it raises \<open>TypeError\<close> (a slice is no key of a dictionary; from
  Python 3.12 on the exception is a \<open>KeyError\<close>), which ends the pass.
\<close>

fun radon_loop :: "llm_env \<Rightarrow> reason_state \<Rightarrow> (pystr \<times> radon_entry) list \<Rightarrow> reason_state" where
  "radon_loop env s [] = s"
| "radon_loop env s ((f, Blocks items) # rest) =
     radon_loop env (foldl (radon_step env f) s (slice_to 2 items)) rest"
| "radon_loop env s ((f, ErrorObject e) # rest) = s\<lparr>raised := Some TypeError\<rparr>"

text \<open>
  The three loops in the source's order, started in the world \<open>w\<close>; the result is the
  final state. \<open>reason_over_findings\<close> returns its suggestions, unless the pass was
  ended by an exception.
\<close>

definition reason_run :: "llm_env \<Rightarrow> analysis \<Rightarrow> int \<Rightarrow> llm_world \<Rightarrow> reason_state" where
  "reason_run env a max_llm_calls w =
     (let s0 = \<lparr>suggestions = [], llm_budget = max_llm_calls, world = w, raised = None\<rparr>;
          s1 = foldl (\<lambda>s entry. foldl (pylint_step env (pe_file entry)) s
                        (slice_to max_llm_calls (pe_issues entry))) s0 (pylint a);
          s2 = foldl (bandit_step env) s1 (slice_to 3 (bandit_results a));
          s3 = radon_loop env s2 (slice_to 3 (radon a))
      in s3)"

definition reason_over_findings ::
  "llm_env \<Rightarrow> analysis \<Rightarrow> int \<Rightarrow> llm_world \<Rightarrow> py_fault + suggestion list" where
  "reason_over_findings env a max_llm_calls w =
     (let s = reason_run env a max_llm_calls w
      in case raised s of None \<Rightarrow> Inr (suggestions s) | Some e \<Rightarrow> Inl e)"

subsection \<open>Scripted endpoints\<close>

text \<open>
  Three endpoints for concrete runs: one that is rate limited twice and then answers,
  one whose quota is never restored, and one that fails for another reason.
\<close>

definition env_rate2 :: llm_env where
  "env_rate2 = \<lparr>use_llm = True,
     create = (\<lambda>k p. if k < 2 then Inl (ApiError (U ''Rate limit reached''))
                     else Inr (U '' Why: x. Fix: y. ''))\<rparr>"

definition env_quota :: llm_env where
  "env_quota = \<lparr>use_llm = True, create = (\<lambda>k p. Inl (ApiError (U ''Quota exceeded'')))\<rparr>"

definition env_down :: llm_env where
  "env_down = \<lparr>use_llm = True, create = (\<lambda>k p. Inl (ApiError (U ''Connection refused'')))\<rparr>"

subsection \<open>Sample findings\<close>

definition sample_bandit :: bandit_issue where
  "sample_bandit = \<lparr>bi_filename = Some (U ''app.py''), bi_line_number = Some 12,
     bi_issue_text = Some (U ''Use of exec detected.'')\<rparr>"

definition sample_pylint :: pylint_issue where
  "sample_pylint = \<lparr>pi_message = Some (U ''Line too long (120/100)''), pi_line = Some 7,
     pi_symbol = Some (U ''line-too-long'')\<rparr>"

definition sample_radon :: radon_item where
  "sample_radon = \<lparr>ri_name = Some (U ''index''), ri_rank = Some (U ''C''), ri_lineno = Some 42\<rparr>"

text \<open>Two linted files with one message each, and nothing from bandit or radon.\<close>

definition two_files :: analysis where
  "two_files = \<lparr>pylint = [\<lparr>pe_file = U ''a.py'', pe_issues = [sample_pylint]\<rparr>,
                           \<lparr>pe_file = U ''b.py'', pe_issues = [sample_pylint]\<rparr>],
                 bandit_results = [], radon = []\<rparr>"

subsection \<open>What the loops iterate\<close>

text \<open>
  The findings the three loop headers of \<open>reason_over_findings\<close> run over, in order:
  \<open>entry.get("issues", [])[:max_llm_calls]\<close> for every pylint entry, the first three
  bandit results, and \<open>items[:2]\<close> for the first three radon files, up to the first
  of them that has no list of blocks.
\<close>

definition pylint_iterated :: "analysis \<Rightarrow> int \<Rightarrow> (pystr \<times> pylint_issue) list" where
  "pylint_iterated a max_llm_calls =
     concat (map (\<lambda>entry. map (Pair (pe_file entry)) (slice_to max_llm_calls (pe_issues entry)))
               (pylint a))"

definition bandit_iterated :: "analysis \<Rightarrow> bandit_issue list" where
  "bandit_iterated a = slice_to 3 (bandit_results a)"

fun radon_blocks :: "(pystr \<times> radon_entry) list \<Rightarrow> (pystr \<times> radon_item) list" where
  "radon_blocks [] = []"
| "radon_blocks ((f, Blocks items) # rest) = map (Pair f) (slice_to 2 items) @ radon_blocks rest"
| "radon_blocks ((f, ErrorObject e) # rest) = []"

definition radon_iterated :: "analysis \<Rightarrow> (pystr \<times> radon_item) list" where
  "radon_iterated a = radon_blocks (slice_to 3 (radon a))"

fun is_error_object :: "pystr \<times> radon_entry \<Rightarrow> bool" where
  "is_error_object (f, ErrorObject e) = True"
| "is_error_object (f, Blocks items) = False"

text \<open>
  A suggestion belongs to a finding when it has the type, file, line and message that
  the loop body copies from the finding, and its text is the finding's offline hint or
  a stripped completion of the endpoint.
\<close>

definition explained_or_hinted :: "llm_env \<Rightarrow> issue \<Rightarrow> pystr \<Rightarrow> bool" where
  "explained_or_hinted env iss t \<longleftrightarrow>
     t = offline_hint iss \<or> (\<exists>k p c. create env k p = Inr c \<and> t = strip c)"

definition pylint_suggestion :: "llm_env \<Rightarrow> suggestion \<Rightarrow> pystr \<times> pylint_issue \<Rightarrow> bool" where
  "pylint_suggestion env s fi \<longleftrightarrow>
     s_type s = U ''pylint'' \<and> s_file s = fst fi \<and> s_line s = get_int (pi_line (snd fi)) \<and>
     s_message s = get_str (pi_message (snd fi)) \<and>
     explained_or_hinted env (PylintIssue (snd fi)) (s_suggestion s)"

definition bandit_suggestion :: "llm_env \<Rightarrow> suggestion \<Rightarrow> bandit_issue \<Rightarrow> bool" where
  "bandit_suggestion env s i \<longleftrightarrow>
     s_type s = U ''bandit'' \<and> s_file s = get_str (bi_filename i) \<and>
     s_line s = get_int (bi_line_number i) \<and> s_message s = get_str (bi_issue_text i) \<and>
     explained_or_hinted env (BanditIssue i) (s_suggestion s)"

definition radon_suggestion :: "llm_env \<Rightarrow> suggestion \<Rightarrow> pystr \<times> radon_item \<Rightarrow> bool" where
  "radon_suggestion env s fi \<longleftrightarrow>
     s_type s = U ''radon'' \<and> s_file s = fst fi \<and> s_line s = get_int (ri_lineno (snd fi)) \<and>
     s_message s = U ''Complexity '' @ get_str (ri_rank (snd fi)) \<and>
     explained_or_hinted env (RadonItem (snd fi)) (s_suggestion s)"

text \<open>
  One linted file with three messages, four bandit results, and four files in radon's
  report with three blocks each.
\<close>

definition busy :: analysis where
  "busy = \<lparr>pylint = [\<lparr>pe_file = U ''a.py'',
                       pe_issues = [sample_pylint, sample_pylint, sample_pylint]\<rparr>],
            bandit_results = replicate 4 sample_bandit,
            radon = map (\<lambda>f. (f, Blocks (replicate 3 sample_radon)))
                      [U ''a.py'', U ''b.py'', U ''c.py'', U ''d.py'']\<rparr>"

text \<open>
  One linted file with a message, one bandit result, and a report of radon with a
  file that it could not parse.
\<close>

definition unparsable :: analysis where
  "unparsable = \<lparr>pylint = [\<lparr>pe_file = U ''a.py'', pe_issues = [sample_pylint]\<rparr>],
                  bandit_results = [sample_bandit],
                  radon = [(U ''a.py'', Blocks [sample_radon]),
                           (U ''bad.py'', ErrorObject (U ''invalid syntax (<unknown>, line 1)''))]\<rparr>"

subsection \<open>Counting calls\<close>

text \<open>
  A state is charged \<open>n\<close> invocations when its budget is as before and its world has
  \<open>n\<close> more invocations of \<open>_chat\<close>, with three requests for each.
\<close>

definition charged :: "reason_state \<Rightarrow> nat \<Rightarrow> reason_state \<Rightarrow> bool" where
  "charged s n s' \<longleftrightarrow>
     llm_budget s' = llm_budget s \<and>
     length (chat_calls (world s')) = length (chat_calls (world s)) + n \<and>
     length (api_calls (world s')) = length (api_calls (world s)) + 3 * n"


section \<open>Score extraction (app.py)\<close>

subsection \<open>Floats\<close>

text \<open>
  A Python \<open>float\<close> is an IEEE 754 binary64 number: a finite value is kept as the
  rational it denotes, next to the infinities and NaN. Negative zero is not told apart
  from zero (no comparison below does).
\<close>

datatype pyfloat = Finite rat | PosInf | NegInf | NaN

fun fl_neg :: "pyfloat \<Rightarrow> pyfloat" where
  "fl_neg (Finite x) = Finite (- x)"
| "fl_neg PosInf = NegInf"
| "fl_neg NegInf = PosInf"
| "fl_neg NaN = NaN"

text \<open>\<open>a < b\<close> and \<open>a <= b\<close> on floats: every comparison with NaN is false.\<close>

fun fl_less :: "pyfloat \<Rightarrow> pyfloat \<Rightarrow> bool" where
  "fl_less NaN b = False"
| "fl_less a NaN = False"
| "fl_less (Finite x) (Finite y) = (x < y)"
| "fl_less a NegInf = False"
| "fl_less PosInf b = False"
| "fl_less NegInf b = True"
| "fl_less a PosInf = True"

fun fl_le :: "pyfloat \<Rightarrow> pyfloat \<Rightarrow> bool" where
  "fl_le NaN b = False"
| "fl_le a NaN = False"
| "fl_le (Finite x) (Finite y) = (x \<le> y)"
| "fl_le NegInf b = True"
| "fl_le a PosInf = True"
| "fl_le a NegInf = False"
| "fl_le PosInf b = False"

text \<open>For \<open>x > 0\<close>, the exponent \<open>e\<close> with \<open>2^e \<le> x < 2^(e+1)\<close>.\<close>

definition ilog2 :: "rat \<Rightarrow> int" where
  "ilog2 x = (if 1 \<le> x then bitlen \<lfloor>x\<rfloor> - 1 else - bitlen (\<lceil>1 / x\<rceil> - 1))"

text \<open>Rounding to an integer, ties to the even neighbour.\<close>

definition round_half_even :: "rat \<Rightarrow> int" where
  "round_half_even x =
     (let f = \<lfloor>x\<rfloor>; d = x - of_int f in
      if d < 1 / 2 then f else if 1 / 2 < d then f + 1 else if even f then f else f + 1)"

text \<open>
  The binary64 number nearest to a rational, ties to even: 53 significant bits, the
  least exponent \<open>-1074\<close> (subnormal numbers), and infinity from \<open>2^1024\<close> on.
\<close>

definition nearest_double_pos :: "rat \<Rightarrow> pyfloat" where
  "nearest_double_pos x =
     (let q = max (ilog2 x - 52) (- 1074);
          v = of_int (round_half_even (x / 2 powi q)) * 2 powi q
      in if 2 ^ 1024 \<le> v then PosInf else Finite v)"

definition to_double :: "rat \<Rightarrow> pyfloat" where
  "to_double x =
     (if x = 0 then Finite 0
      else if 0 < x then nearest_double_pos x
      else fl_neg (nearest_double_pos (- x)))"

text \<open>
  \<open>round(x, ndigits)\<close> for \<open>ndigits \<ge> 0\<close>: CPython rounds the exact value of the float
  to that many decimals, ties to even, and returns the nearest float.
\<close>

fun py_round :: "pyfloat \<Rightarrow> nat \<Rightarrow> pyfloat" where
  "py_round (Finite x) n = to_double (of_int (round_half_even (x * 10 ^ n)) / 10 ^ n)"
| "py_round v n = v"

subsection \<open>Reading a float\<close>

text \<open>
  \<open>float(s)\<close> on a string, after CPython's \<open>PyFloat_FromString\<close>. A string that is
  not all ASCII is first rewritten (\<open>_PyUnicode_TransformDecimalAndSpaceToASCII\<close>):
  white space becomes a blank, a decimal digit of any script its ASCII digit, and the
  first other character from 127 on a question mark that ends the text. Then underscores
  are accepted between digits only, ASCII white space is stripped at both ends, and
  what is left is an optional sign followed by \<open>inf\<close>, \<open>infinity\<close> or \<open>nan\<close> in any
  case, or by a decimal number with an optional exponent. \<open>None\<close> is \<open>ValueError\<close>.
\<close>

fun to_ascii_number :: "pystr \<Rightarrow> pystr" where
  "to_ascii_number [] = []"
| "to_ascii_number (c # cs) =
     (if c < 127 then c # to_ascii_number cs
      else if is_space c then 32 # to_ascii_number cs
      else (case decimal_value c of
              Some d \<Rightarrow> (48 + d) # to_ascii_number cs
            | None \<Rightarrow> [63]))"

definition ascii_lower :: "pystr \<Rightarrow> pystr" where
  "ascii_lower s = map (\<lambda>c. if 65 \<le> c \<and> c \<le> 90 then c + 32 else c) s"

definition is_ascii_digit :: "nat \<Rightarrow> bool" where
  "is_ascii_digit c \<longleftrightarrow> 48 \<le> c \<and> c \<le> 57"

definition digits_val :: "pystr \<Rightarrow> nat" where
  "digits_val ds = foldl (\<lambda>a c. 10 * a + (c - 48)) 0 ds"

fun under_scan :: "nat \<Rightarrow> pystr \<Rightarrow> pystr option" where
  "under_scan prev [] = (if prev = 95 then None else Some [])"
| "under_scan prev (c # cs) =
     (if c = 95 then (if is_ascii_digit prev then under_scan c cs else None)
      else if prev = 95 \<and> \<not> is_ascii_digit c then None
      else map_option (Cons c) (under_scan c cs))"

definition is_float_space :: "nat \<Rightarrow> bool" where
  "is_float_space c \<longleftrightarrow> (9 \<le> c \<and> c \<le> 13) \<or> c = 32"

definition float_strip :: "pystr \<Rightarrow> pystr" where
  "float_strip s = rev (dropWhile is_float_space (rev (dropWhile is_float_space s)))"

definition parse_sign :: "pystr \<Rightarrow> bool \<times> pystr" where
  "parse_sign s =
     (case s of [] \<Rightarrow> (False, [])
      | c # cs \<Rightarrow> if c = 45 then (True, cs) else if c = 43 then (False, cs) else (False, s))"

definition parse_exponent :: "pystr \<Rightarrow> int option" where
  "parse_exponent s =
     (case parse_sign s of (neg, ds) \<Rightarrow>
        if ds \<noteq> [] \<and> list_all is_ascii_digit ds
        then Some (if neg then - int (digits_val ds) else int (digits_val ds))
        else None)"

definition parse_number :: "pystr \<Rightarrow> rat option" where
  "parse_number s =
     (let ip = takeWhile is_ascii_digit s; r1 = dropWhile is_ascii_digit s;
          (fp, r2) = (case r1 of [] \<Rightarrow> ([], [])
                      | c # cs \<Rightarrow> if c = 46
                          then (takeWhile is_ascii_digit cs, dropWhile is_ascii_digit cs)
                          else ([], r1))
      in if ip = [] \<and> fp = [] then None
         else let m = of_nat (digits_val (ip @ fp)) / 10 ^ length fp in
           (case r2 of [] \<Rightarrow> Some m
            | c # cs \<Rightarrow> if c = 101 \<or> c = 69
                then map_option (\<lambda>e. m * 10 powi e) (parse_exponent cs)
                else None))"

definition float_ascii :: "pystr \<Rightarrow> pyfloat option" where
  "float_ascii s =
     (case under_scan 0 s of None \<Rightarrow> None
      | Some t \<Rightarrow>
         (case parse_sign (float_strip t) of (neg, r) \<Rightarrow>
            if ascii_lower r = U ''inf'' \<or> ascii_lower r = U ''infinity''
              then Some (if neg then NegInf else PosInf)
            else if ascii_lower r = U ''nan'' then Some NaN
            else map_option (\<lambda>x. to_double (if neg then - x else x)) (parse_number r)))"

definition py_float :: "pystr \<Rightarrow> pyfloat option" where
  "py_float s = float_ascii (if list_all (\<lambda>c. c < 128) s then s else to_ascii_number s)"

subsection \<open>String methods\<close>

text \<open>\<open>text.split()\<close>: the maximal runs of characters that are not white space.\<close>

fun split_acc :: "pystr \<Rightarrow> pystr \<Rightarrow> pystr list" where
  "split_acc cur [] = (if cur = [] then [] else [cur])"
| "split_acc cur (c # cs) =
     (if is_space c then (if cur = [] then split_acc [] cs else cur # split_acc [] cs)
      else split_acc (cur @ [c]) cs)"

definition split :: "pystr \<Rightarrow> pystr list" where
  "split s = split_acc [] s"

text \<open>\<open>s.strip(chars)\<close> removes, at both ends, every character that occurs in \<open>chars\<close>.\<close>

definition strip_chars :: "pystr \<Rightarrow> pystr \<Rightarrow> pystr" where
  "strip_chars chars s =
     rev (dropWhile (\<lambda>c. c \<in> set chars) (rev (dropWhile (\<lambda>c. c \<in> set chars) s)))"

text \<open>\<open>str.isdigit\<close>: not empty, and digits only.\<close>

definition isdigit :: "pystr \<Rightarrow> bool" where
  "isdigit s \<longleftrightarrow> s \<noteq> [] \<and> list_all is_digit_cp s"

text \<open>\<open>sep.join(xs)\<close>.\<close>

fun join :: "pystr \<Rightarrow> pystr list \<Rightarrow> pystr" where
  "join sep [] = []"
| "join sep [x] = x"
| "join sep (x # y # ys) = x @ sep @ join sep (y # ys)"

subsection \<open>extract\_score\<close>

text \<open>
  The values \<open>extract_score\<close> may be given. An object that is not a string, a list, a
  dictionary or \<open>None\<close> (a number, a truth value) is kept as the text \<open>str\<close> gives for
  it and its truth value; it has no \<open>split\<close> method. The text of a list or a dictionary
  (its \<open>repr\<close>) is a parameter.
\<close>

datatype pyobj =
  OStr pystr | OList "pyobj list" | ODict "(pystr \<times> pyobj) list" | ONone | OOther pystr bool

fun truthy :: "pyobj \<Rightarrow> bool" where
  "truthy (OStr s) = (s \<noteq> [])"
| "truthy (OList xs) = (xs \<noteq> [])"
| "truthy (ODict d) = (d \<noteq> [])"
| "truthy ONone = False"
| "truthy (OOther t b) = b"

fun str_of :: "(pyobj \<Rightarrow> pystr) \<Rightarrow> pyobj \<Rightarrow> pystr" where
  "str_of repr (OStr s) = s"
| "str_of repr ONone = U ''None''"
| "str_of repr (OOther t b) = t"
| "str_of repr v = repr v"

text \<open>\<open>d.get(k, "")\<close> on a dictionary given by its items.\<close>

definition dict_get :: "(pystr \<times> pyobj) list \<Rightarrow> pystr \<Rightarrow> pyobj" where
  "dict_get d k = (case map_of d k of None \<Rightarrow> OStr [] | Some v \<Rightarrow> v)"

text \<open>
  The first lines of \<open>extract_score\<close>, which turn the argument into the text to scan.
  \<open>" ".join\<close> raises \<open>TypeError\<close> on an item that is not a string, and in the
  dictionary branch a value that is true and not a string has no \<open>split\<close>.
\<close>

fun join_item :: "(pyobj \<Rightarrow> pystr) \<Rightarrow> pyobj \<Rightarrow> py_fault + pystr" where
  "join_item repr (ODict d) =
     (case dict_get d (U ''suggestion'') of
        OStr s \<Rightarrow> Inr s
      | v \<Rightarrow> Inl TypeError)"
| "join_item repr t = Inr (str_of repr t)"

fun collect :: "(py_fault + pystr) list \<Rightarrow> py_fault + pystr list" where
  "collect [] = Inr []"
| "collect (Inl e # xs) = Inl e"
| "collect (Inr s # xs) = (case collect xs of Inl e \<Rightarrow> Inl e | Inr ss \<Rightarrow> Inr (s # ss))"

definition score_text :: "(pyobj \<Rightarrow> pystr) \<Rightarrow> pyobj \<Rightarrow> py_fault + pystr" where
  "score_text repr text =
     (case text of
        OList xs \<Rightarrow>
          (case collect (map (join_item repr) xs) of
             Inl e \<Rightarrow> Inl e
           | Inr ss \<Rightarrow> Inr (join (U '' '') ss))
      | ODict d \<Rightarrow>
          (let v = (if truthy (dict_get d (U ''suggestion'')) then dict_get d (U ''suggestion'')
                    else if truthy (dict_get d (U ''result'')) then dict_get d (U ''result'')
                    else OStr (repr text))
           in case v of
                OStr s \<Rightarrow> Inr s
              | _ \<Rightarrow> Inl AttributeError)
      | _ \<Rightarrow> Inr (str_of repr text))"

text \<open>The loop over \<open>text.split()\<close>; running out of tokens returns 7.5.\<close>

fun scan_tokens :: "pystr list \<Rightarrow> pyfloat" where
  "scan_tokens [] = Finite (15 / 2)"
| "scan_tokens (token # rest) =
     (if py_in (U ''/10'') token \<or> isdigit (remove1 46 token) then
        (case py_float (strip_chars (U ''/10'') token) of
           None \<Rightarrow> scan_tokens rest
         | Some val \<Rightarrow>
             if fl_less (Finite 0) val \<and> fl_le val (Finite 10) then py_round val 2
             else scan_tokens rest)
      else scan_tokens rest)"

definition extract_score :: "(pyobj \<Rightarrow> pystr) \<Rightarrow> pyobj \<Rightarrow> py_fault + pyfloat" where
  "extract_score repr text =
     (case score_text repr text of
        Inl e \<Rightarrow> Inl e
      | Inr t \<Rightarrow> Inr (scan_tokens (split t)))"





text \<open>A \<open>repr\<close> for closed examples that hold no list and no dictionary to print.\<close>

definition no_repr :: "pyobj \<Rightarrow> pystr" where
  "no_repr v = []"

section \<open>The static tool runner (analyzer.py)\<close>

text \<open>
  A parsed JSON document. \<open>json.loads\<close> belongs to the standard library and is a
  parameter: \<open>loads s\<close> is the document read from \<open>s\<close>, or \<open>None\<close> when
  \<open>json.loads\<close> raises. Running a command is a parameter as well: \<open>run_cmd\<close> gives
  the return code and the two output texts of the process, or the exception that
  \<open>subprocess.run\<close> raises.
\<close>

datatype json =
  JNull | JBool bool | JNum rat | JStr pystr | JArr "json list" | JObj "(pystr \<times> json) list"

record tool_env =
  executable :: pystr
  list_py_files :: "pystr \<Rightarrow> pystr list"
  run_cmd :: "pystr list \<Rightarrow> py_exn + (int \<times> pystr \<times> pystr)"
  loads :: "pystr \<Rightarrow> json option"
  clone_repo :: "pystr \<Rightarrow> py_exn + pystr"

text \<open>\<open>out or dflt\<close> on strings.\<close>

definition or_else :: "pystr \<Rightarrow> pystr \<Rightarrow> pystr" where
  "or_else out dflt = (if out = [] then dflt else out)"

text \<open>
  The loop of \<open>run_pylint\<close> over the files. The \<open>try\<close> block holds \<open>json.loads\<close>
  only; an exception of \<open>run_cmd\<close> leaves the function.
\<close>

fun pylint_files :: "tool_env \<Rightarrow> pystr list \<Rightarrow> py_exn + (pystr \<times> json) list" where
  "pylint_files env [] = Inr []"
| "pylint_files env (f # fs) =
     (case run_cmd env [executable env, U ''-m'', U ''pylint'', f, U ''--output-format=json''] of
        Inl e \<Rightarrow> Inl e
      | Inr (code, out, err) \<Rightarrow>
          (let issues = (case loads env (or_else out (U ''[]'')) of
                           None \<Rightarrow> JArr []
                         | Some j \<Rightarrow> j)
           in case pylint_files env fs of
                Inl e \<Rightarrow> Inl e
              | Inr results \<Rightarrow> Inr ((f, issues) # results)))"

definition run_pylint :: "tool_env \<Rightarrow> pystr \<Rightarrow> py_exn + (pystr \<times> json) list" where
  "run_pylint env root_dir = pylint_files env (list_py_files env root_dir)"

definition run_bandit :: "tool_env \<Rightarrow> pystr \<Rightarrow> py_exn + json" where
  "run_bandit env root_dir =
     (case run_cmd env [executable env, U ''-m'', U ''bandit'', U ''-r'', root_dir, U ''-f'', U ''json''] of
        Inl e \<Rightarrow> Inl e
      | Inr (code, out, err) \<Rightarrow>
          (case loads env (or_else out (U ''{}'')) of
             None \<Rightarrow> Inr (JObj [(U ''results'', JArr [])])
           | Some j \<Rightarrow> Inr j))"

definition run_radon_complexity :: "tool_env \<Rightarrow> pystr \<Rightarrow> py_exn + json" where
  "run_radon_complexity env root_dir =
     (case run_cmd env [executable env, U ''-m'', U ''radon'', U ''cc'', U ''-j'', root_dir] of
        Inl e \<Rightarrow> Inl e
      | Inr (code, out, err) \<Rightarrow>
          (case loads env (or_else out (U ''{}'')) of
             None \<Rightarrow> Inr (JObj [])
           | Some j \<Rightarrow> Inr j))"

record findings =
  repo_dir :: pystr
  pylint_findings :: "(pystr \<times> json) list"
  bandit_findings :: json
  radon_findings :: json

definition analyze_repository :: "tool_env \<Rightarrow> pystr \<Rightarrow> py_exn + findings" where
  "analyze_repository env git_url =
     (case clone_repo env git_url of
        Inl e \<Rightarrow> Inl e
      | Inr dir \<Rightarrow>
          (case run_pylint env dir of
             Inl e \<Rightarrow> Inl e
           | Inr p \<Rightarrow>
               (case run_bandit env dir of
                  Inl e \<Rightarrow> Inl e
                | Inr b \<Rightarrow>
                    (case run_radon_complexity env dir of
                       Inl e \<Rightarrow> Inl e
                     | Inr r \<Rightarrow>
                         Inr \<lparr>repo_dir = dir, pylint_findings = p, bandit_findings = b,
                              radon_findings = r\<rparr>))))"

text \<open>
  What the reasoning pass reads of bandit's document,
  \<open>analysis.get("bandit", {}).get("results", [])\<close>, for a document that is an object.
\<close>

definition results_of :: "json \<Rightarrow> json" where
  "results_of b = (case b of JObj kvs \<Rightarrow> (case map_of kvs (U ''results'') of
                                           None \<Rightarrow> JArr [] | Some r \<Rightarrow> r)
                   | _ \<Rightarrow> JArr [])"

text \<open>
  A checkout with three files where every tool prints text that is no JSON, except
  that pylint prints nothing for the second file; the parser knows the two empty
  documents only.
\<close>

definition broken_tools :: tool_env where
  "broken_tools =
     \<lparr>executable = U ''python'',
      list_py_files = (\<lambda>root_dir. [U ''a.py'', U ''b.py'', U ''c.py'']),
      run_cmd = (\<lambda>cmd. Inr (1, if U ''b.py'' \<in> set cmd then [] else U ''Traceback: crash'', [])),
      loads = (\<lambda>s. if s = U ''[]'' then Some (JArr []) else if s = U ''{}'' then Some (JObj [])
                    else None),
      clone_repo = (\<lambda>url. Inr (U ''/tmp/devmate_1''))\<rparr>"

section \<open>The document renderer (reporter.py)\<close>

subsection \<open>Text helpers\<close>

text \<open>
  \<open>sanitize\<close>: a list or a dictionary is joined line by line, any other value that is
  no string is replaced by its \<open>str\<close>, and \<open>re.sub(r"[^\x00-\xFF]", "", text or "")\<close>
  deletes every character above code point 255. The function has no parameter for the
  rendering mode.
\<close>

definition sanitize :: "(pyobj \<Rightarrow> pystr) \<Rightarrow> pyobj \<Rightarrow> pystr" where
  "sanitize repr text =
     (let t = (case text of
                 OList xs \<Rightarrow> join (U ''\<newline>'') (map (str_of repr) xs)
               | ODict d \<Rightarrow> join (U ''\<newline>'') (map (\<lambda>(k, v). k @ U '': '' @ str_of repr v) d)
               | _ \<Rightarrow> str_of repr text)
      in filter (\<lambda>c. c \<le> 255) t)"

text \<open>\<open>clamp\<close>.\<close>

definition clamp :: "pystr \<Rightarrow> nat \<Rightarrow> pystr" where
  "clamp s lim' = (if length s \<le> lim' then s else take lim' s @ U ''\<newline>...[truncated]...'')"

text \<open>
  \<open>flatten_text\<close>, the local function of \<open>_render_pdf\<close>: dictionaries and lists are
  flattened recursively, anything else is \<open>str(data or "")\<close>.
\<close>

fun flatten_text :: "(pyobj \<Rightarrow> pystr) \<Rightarrow> pyobj \<Rightarrow> pystr"
  and flatten_items :: "(pyobj \<Rightarrow> pystr) \<Rightarrow> (pystr \<times> pyobj) list \<Rightarrow> pystr list"
  and flatten_list :: "(pyobj \<Rightarrow> pystr) \<Rightarrow> pyobj list \<Rightarrow> pystr list" where
  "flatten_text repr (ODict d) = join (U ''\<newline>'') (flatten_items repr d)"
| "flatten_text repr (OList xs) = join (U ''\<newline>'') (flatten_list repr xs)"
| "flatten_text repr (OStr s) = s"
| "flatten_text repr ONone = []"
| "flatten_text repr (OOther t b) = (if b then t else [])"
| "flatten_items repr [] = []"
| "flatten_items repr (kv # d) =
     (fst kv @ U '': '' @ flatten_text repr (snd kv)) # flatten_items repr d"
| "flatten_list repr [] = []"
| "flatten_list repr (x # xs) = flatten_text repr x # flatten_list repr xs"

text \<open>
  The pattern of \<open>extract_code_blocks\<close> and of the \<open>re.sub\<close> that removes the blocks:
  three backquotes, an optional \<open>python\<close>, the shortest text up to the next three
  backquotes. \<open>find_sub\<close> is the index of the first occurrence of a string;
  \<open>block_at\<close> is the match at the head of a text, as the group and the length of
  the match. \<open>code_scan\<close> tries every position from left to right, as the regular
  expression engine does; its first argument counts the characters of a match that
  are still to be skipped. It returns the groups and the text without the matches.
\<close>

fun find_sub :: "pystr \<Rightarrow> pystr \<Rightarrow> nat option" where
  "find_sub pat [] = (if pat = [] then Some 0 else None)"
| "find_sub pat (c # cs) =
     (if prefix pat (c # cs) then Some 0 else map_option Suc (find_sub pat cs))"

definition block_at :: "pystr \<Rightarrow> (pystr \<times> nat) option" where
  "block_at s =
     (if prefix (U ''```'') s then
        (let rest = drop 3 s;
             k = (if prefix (U ''python'') rest then 6 else 0);
             body = drop k rest
         in case find_sub (U ''```'') body of
              None \<Rightarrow> None
            | Some n \<Rightarrow> Some (take n body, 3 + k + n + 3))
      else None)"

fun code_scan :: "nat \<Rightarrow> pystr \<Rightarrow> pystr list \<times> pystr" where
  "code_scan k [] = ([], [])"
| "code_scan (Suc k) (c # cs) = code_scan k cs"
| "code_scan 0 (c # cs) =
     (case block_at (c # cs) of
        Some (g, n) \<Rightarrow> (case code_scan (n - 1) cs of (gs, clean) \<Rightarrow> (g # gs, clean))
      | None \<Rightarrow> (case code_scan 0 cs of (gs, clean) \<Rightarrow> (gs, c # clean)))"

definition extract_code_blocks :: "pystr \<Rightarrow> pystr list" where
  "extract_code_blocks text =
     filter (\<lambda>b. b \<noteq> []) (map strip (fst (code_scan 0 text)))"

definition remove_code_blocks :: "pystr \<Rightarrow> pystr" where
  "remove_code_blocks text = strip (snd (code_scan 0 text))"

text \<open>
  \<open>re.sub(r"\x1b\[[0-9;]*m", "", text)\<close>: the colour sequences of a terminal are
  deleted. \<open>ansi_at\<close> is the length of the sequence at the head of a text.
\<close>

definition ansi_at :: "pystr \<Rightarrow> nat option" where
  "ansi_at s =
     (if prefix [27, 91] s then
        (let ps = takeWhile (\<lambda>c. (48 \<le> c \<and> c \<le> 57) \<or> c = 59) (drop 2 s) in
         if prefix [109] (drop (2 + length ps) s) then Some (2 + length ps + 1) else None)
      else None)"

fun strip_ansi :: "nat \<Rightarrow> pystr \<Rightarrow> pystr" where
  "strip_ansi k [] = []"
| "strip_ansi (Suc k) (c # cs) = strip_ansi k cs"
| "strip_ansi 0 (c # cs) =
     (case ansi_at (c # cs) of
        Some n \<Rightarrow> strip_ansi (n - 1) cs
      | None \<Rightarrow> c # strip_ansi 0 cs)"

subsection \<open>The calls made on a document\<close>

text \<open>
  The methods of \<open>FPDF\<close> that the renderer calls, with their arguments. \<open>LineAtY\<close>
  is \<open>pdf.line(x1, y, x2, y)\<close> with the \<open>y\<close> that \<open>get_y\<close> has just returned.
  A rendering pass is a list of actions: calls on the document, and the exception of
  the interpreter that stops the pass, if there is one.
\<close>

datatype pdf_op =
    SetAutoPageBreak bool rat
  | AddPage
  | AddFont pystr pystr pystr bool
  | SetFont pystr pystr rat
  | SetTextColor nat nat nat
  | Cell rat rat pystr bool pystr
  | MultiCell rat rat pystr
  | Ln rat
  | GetY
  | LineAtY rat rat
  | Output pystr

datatype report_exn = Fault py_fault | Raised py_exn

datatype action = Call pdf_op | Raise report_exn

text \<open>\<open>d.get(k, dflt)\<close> and \<open>d.get(k)\<close> on a dictionary given by its items.\<close>

definition dict_get_or :: "(pystr \<times> pyobj) list \<Rightarrow> pystr \<Rightarrow> pyobj \<Rightarrow> pyobj" where
  "dict_get_or d k dflt = (case map_of d k of None \<Rightarrow> dflt | Some v \<Rightarrow> v)"

definition section_titles :: "(pystr \<times> pystr) list" where
  "section_titles =
     [(U ''static'', [128269] @ U '' Static Analysis Findings''),
      (U ''review'', [129504] @ U '' AI Code Review & Recommendations''),
      (U ''summary'', [128202] @ U '' Final Summary & Health Score'')]"

definition font_family :: "bool \<Rightarrow> pystr" where
  "font_family unicode_mode = (if unicode_mode then U ''Auto'' else U ''Helvetica'')"

text \<open>The label of a code excerpt; the text is passed to \<open>pdf.cell\<close> as it is.\<close>

definition code_label :: "nat \<Rightarrow> pystr" where
  "code_label idx = [128161] @ U '' Code Suggestion '' @ str_nat idx @ U '':''"

definition render_code :: "(pyobj \<Rightarrow> pystr) \<Rightarrow> bool \<Rightarrow> nat \<times> pystr \<Rightarrow> action list" where
  "render_code repr unicode_mode ic =
     [Call (SetFont (font_family unicode_mode) (U ''B'') 11),
      Call (SetTextColor 34 139 34),
      Call (Cell 0 6 (code_label (fst ic)) True []),
      Call (SetFont (U ''Courier'') [] 9),
      Call (SetTextColor 0 0 0),
      Call (MultiCell 0 (9 / 2) (sanitize repr (OStr (snd ic)))),
      Call (Ln 4)]"

text \<open>
  The body of the loop over the suggestions (\<open>suggs\<close> below). The default of \<open>section_titles.get\<close>,
  \<open>(s.get("type") or "Section").title()\<close>, is evaluated before the lookup, and it
  raises \<open>AttributeError\<close> when the type is true and no string.
\<close>

definition render_section ::
  "(pyobj \<Rightarrow> pystr) \<Rightarrow> bool \<Rightarrow> (pystr \<times> pyobj) list \<Rightarrow> action list" where
  "render_section repr unicode_mode s =
     (let stype = lower (str_of repr (dict_get_or s (U ''type'') (OStr [])));
          ty = dict_get_or s (U ''type'') ONone
      in case (if truthy ty then ty else OStr (U ''Section'')) of
           OStr t \<Rightarrow>
             (let header = (case map_of section_titles stype of Some h \<Rightarrow> h | None \<Rightarrow> title t);
                  sub = U ''File: '' @ str_of repr (dict_get_or s (U ''file'') (OStr (U ''N/A''))) @
                        U ''  |  Line: '' @
                        str_of repr (dict_get_or s (U ''line'') (OOther (U ''0'') False));
                  issue = flatten_text repr
                            (dict_get_or s (U ''message'') (OStr (U ''No issue message'')));
                  body_text = flatten_text repr
                            (dict_get_or s (U ''suggestion'') (OStr (U ''No detailed output.'')));
                  codes = extract_code_blocks body_text;
                  clean_body = remove_code_blocks body_text
              in [Call (SetFont (font_family unicode_mode) (U ''B'') 14),
                  Call (SetTextColor 30 144 255),
                  Call (Cell 0 9 (sanitize repr (OStr header)) True []),
                  Call (SetTextColor 0 0 0),
                  Call (Ln 3),
                  Call (SetFont (font_family unicode_mode) [] 11),
                  Call (MultiCell 0 6 (sanitize repr (OStr sub))),
                  Call (Ln 1),
                  Call (MultiCell 0 6 (sanitize repr (OStr (U ''Issue: '' @ issue)))),
                  Call (Ln 3)] @
                 (if clean_body \<noteq> []
                  then [Call (SetFont (font_family unicode_mode) [] 10),
                        Call (MultiCell 0 (11 / 2) (sanitize repr (OStr clean_body))),
                        Call (Ln 3)]
                  else []) @
                 (if codes \<noteq> []
                  then concat (map (render_code repr unicode_mode)
                                 (zip [1..<Suc (length codes)] codes))
                  else [Call (SetFont (font_family unicode_mode) (U ''I'') 10),
                        Call (MultiCell 0 (11 / 2)
                                (sanitize repr (OStr (U ''No code suggestions available.'')))),
                        Call (Ln 3)]) @
                 [Call GetY, Call (LineAtY 10 200), Call (Ln 6)])
         | _ \<Rightarrow> [Raise (Fault AttributeError)])"

text \<open>
  \<open>_render_pdf\<close>. Its callers pass a string for \<open>full_output\<close>; \<open>now\<close> is what
  \<open>time.strftime\<close> returns.
\<close>

definition render_pdf ::
  "(pyobj \<Rightarrow> pystr) \<Rightarrow> pystr \<Rightarrow> pystr \<Rightarrow> (pystr \<times> pyobj) list list \<Rightarrow> pystr \<Rightarrow> bool \<Rightarrow>
   action list" where
  "render_pdf repr now repo_url suggs full_output unicode_mode =
     (let title1 = U ''DevMate '' @ [8211] @ U '' AI Multi-Agent Code Review Report'';
          meta = U ''Repository: '' @ repo_url @ U ''\<newline>Generated on: '' @ now;
          title2 = [128421, 65039] @ U '' Full CrewAI Execution Log''
      in [Call (SetAutoPageBreak True 15),
          Call AddPage,
          Call (SetFont (font_family unicode_mode) (U ''B'') 16),
          Call (Cell 0 10 (sanitize repr (OStr title1)) True (U ''C'')),
          Call (Ln 6),
          Call (SetFont (font_family unicode_mode) [] 12),
          Call (MultiCell 0 7 (sanitize repr (OStr meta))),
          Call (Ln 4)] @
         concat (map (render_section repr unicode_mode) suggs) @
         (if full_output \<noteq> []
          then [Call AddPage,
                Call (SetFont (font_family unicode_mode) (U ''B'') 14),
                Call (SetTextColor 220 53 69),
                Call (Cell 0 9 (sanitize repr (OStr title2)) True []),
                Call (SetTextColor 0 0 0),
                Call (SetFont (font_family unicode_mode) [] 9),
                Call (MultiCell 0 (9 / 2)
                        (sanitize repr (OStr (strip_ansi 0 (clamp full_output 20000)))))]
          else []))"

subsection \<open>generate\_pdf\_report\<close>

text \<open>
  What the renderer asks of its surroundings: the flavour of \<open>os.path\<close>, the files
  that exist, the clock, whether \<open>os.makedirs\<close> raises, and the library. \<open>fpdf_call\<close>
  tells for a call on a document, given the calls made on it before, whether the
  library raises.
\<close>

record report_env =
  is_windows :: bool
  path_exists :: "pystr \<Rightarrow> bool"
  time_time :: int
  strftime :: "bool \<Rightarrow> pystr"
  makedirs :: "py_exn option"
  fpdf_call :: "pdf_op list \<Rightarrow> pdf_op \<Rightarrow> py_exn option"
  obj_repr :: "pyobj \<Rightarrow> pystr"

text \<open>
  \<open>os.path.join\<close> for a first part that does not end in a separator and a relative
  second part, and \<open>os.path.basename\<close> for a path without a drive.
\<close>

definition separators :: "bool \<Rightarrow> pystr" where
  "separators win = (if win then [92, 47] else [47])"

definition path_join :: "bool \<Rightarrow> pystr \<Rightarrow> pystr \<Rightarrow> pystr" where
  "path_join win a b = a @ [hd (separators win)] @ b"

definition basename :: "bool \<Rightarrow> pystr \<Rightarrow> pystr" where
  "basename win p = rev (takeWhile (\<lambda>c. c \<notin> set (separators win)) (rev p))"

definition find_font :: "report_env \<Rightarrow> pystr option" where
  "find_font env =
     (let win_fonts = U ''C:'' @ [92] @ U ''Windows'' @ [92] @ U ''Fonts'';
          candidates = [U ''arial.ttf'', U ''arialuni.ttf'', U ''segoeui.ttf'', U ''calibri.ttf'',
                        U ''cambria.ttf'', U ''consola.ttf'', U ''times.ttf'', U ''cour.ttf'']
      in find (path_exists env) (map (path_join (is_windows env) win_fonts) candidates))"

text \<open>\<open>normalize_output\<close>, the local function of \<open>generate_pdf_report\<close>.\<close>

definition normalize_item :: "(pyobj \<Rightarrow> pystr) \<Rightarrow> pyobj \<Rightarrow> pystr" where
  "normalize_item repr x =
     (case x of
        ODict d \<Rightarrow> U ''- '' @ str_of repr (dict_get_or d (U ''type'') (OStr (U ''Info''))) @ U '': '' @
                  str_of repr (dict_get_or d (U ''suggestion'') (OStr (repr x)))
      | _ \<Rightarrow> str_of repr x)"

definition normalize_output :: "(pyobj \<Rightarrow> pystr) \<Rightarrow> pyobj \<Rightarrow> pystr" where
  "normalize_output repr data =
     (case data of
        OList xs \<Rightarrow> join (U ''\<newline>'') (map (normalize_item repr) xs)
      | ODict d \<Rightarrow> join (U ''\<newline>'') (map (\<lambda>(k, v). k @ U '': '' @ str_of repr v) d)
      | _ \<Rightarrow> (if truthy data then str_of repr data else []))"

text \<open>
  Carrying out a pass on a document: the calls are made in order until the library or
  the interpreter raises. The result is the exception, if any, and the calls made.
\<close>

fun run_actions :: "report_env \<Rightarrow> pdf_op list \<Rightarrow> action list \<Rightarrow> report_exn option \<times> pdf_op list" where
  "run_actions env made [] = (None, made)"
| "run_actions env made (Raise e # rest) = (Some e, made)"
| "run_actions env made (Call c # rest) =
     (case fpdf_call env made c of
        Some e \<Rightarrow> (Some (Raised e), made @ [c])
      | None \<Rightarrow> run_actions env (made @ [c]) rest)"

definition out_path :: "report_env \<Rightarrow> pystr" where
  "out_path env =
     path_join (is_windows env) (path_join (is_windows env) (U ''static'') (U ''reports''))
       (U ''devmate_report_'' @ str_int (time_time env) @ U ''.pdf'')"

text \<open>The \<open>try\<close> block of the Unicode attempt, and the fallback pass.\<close>

definition unicode_pass ::
  "report_env \<Rightarrow> pystr \<Rightarrow> (pystr \<times> pyobj) list list \<Rightarrow> pyobj \<Rightarrow> action list" where
  "unicode_pass env repo_url suggs full_output =
     (case find_font env of
        Some font_path \<Rightarrow>
          [Call (AddFont (U ''Auto'') [] font_path True),
           Call (AddFont (U ''Auto'') (U ''B'') font_path True)] @
          render_pdf (obj_repr env) (strftime env True) repo_url suggs
            (normalize_output (obj_repr env) full_output) True @
          [Call (Output (out_path env))]
      | None \<Rightarrow>
          [Raise (Raised (RuntimeError (U ''No Unicode font found; forcing fallback.'')))])"

definition fallback_pass ::
  "report_env \<Rightarrow> pystr \<Rightarrow> (pystr \<times> pyobj) list list \<Rightarrow> pyobj \<Rightarrow> action list" where
  "fallback_pass env repo_url suggs full_output =
     render_pdf (obj_repr env) (strftime env False) repo_url suggs
       (normalize_output (obj_repr env) full_output) False @
     [Call (Output (out_path env))]"

text \<open>
  The result of \<open>generate_pdf_report\<close>: the path returned or the exception raised, and
  the documents created, each \<open>FPDF()\<close> with the calls made on it, in order of creation.
\<close>

record report_result =
  outcome :: "report_exn + pystr"
  documents :: "pdf_op list list"

definition generate_pdf_report ::
  "report_env \<Rightarrow> pystr \<Rightarrow> (pystr \<times> pyobj) list list \<Rightarrow> pyobj \<Rightarrow> report_result" where
  "generate_pdf_report env repo_url suggs full_output =
     (case makedirs env of
        Some e \<Rightarrow> \<lparr>outcome = Inl (Raised e), documents = []\<rparr>
      | None \<Rightarrow>
          (let rel = U ''reports/'' @ basename (is_windows env) (out_path env) in
           case run_actions env [] (unicode_pass env repo_url suggs full_output) of
             (None, doc1) \<Rightarrow> \<lparr>outcome = Inr rel, documents = [doc1]\<rparr>
           | (Some e, doc1) \<Rightarrow>
               (case run_actions env [] (fallback_pass env repo_url suggs full_output) of
                  (None, doc2) \<Rightarrow> \<lparr>outcome = Inr rel, documents = [doc1, doc2]\<rparr>
                | (Some fallback_error, doc2) \<Rightarrow>
                    \<lparr>outcome = Inl fallback_error, documents = [doc1, doc2]\<rparr>)))"


text \<open>
  Two surroundings for concrete runs, both on a clock that shows 1700000000 and with a
  library that accepts every other call: one without any font file, and one where the
  font files exist and the library refuses to register them.
\<close>

definition no_fonts :: report_env where
  "no_fonts = \<lparr>is_windows = False, path_exists = (\<lambda>p. False), time_time = 1700000000,
                strftime = (\<lambda>m. U ''2023-11-14 22:13:20''), makedirs = None,
                fpdf_call = (\<lambda>made c. None), obj_repr = no_repr\<rparr>"


text \<open>The texts that a pass hands to \<open>cell\<close> and \<open>multi_cell\<close>, in order.\<close>

fun op_text :: "pdf_op \<Rightarrow> pystr list" where
  "op_text (Cell w h txt l align) = [txt]"
| "op_text (MultiCell w h txt) = [txt]"
| "op_text c = []"

fun action_text :: "action \<Rightarrow> pystr list" where
  "action_text (Call c) = op_text c"
| "action_text (Raise e) = []"

definition texts_of :: "action list \<Rightarrow> pystr list" where
  "texts_of as = concat (map action_text as)"

text \<open>A text with no character above code point 255, or the label of a code excerpt.\<close>

definition plain_or_label :: "pystr \<Rightarrow> bool" where
  "plain_or_label t \<longleftrightarrow> (\<forall>c\<in>set t. c \<le> 255) \<or> (\<exists>idx. t = code_label idx)"


section \<open>The analysis route (app.py)\<close>

text \<open>
  A row of the table \<open>Analysis\<close> (the key and the time stamp are given by the
  database). The table is the list of its rows. \<open>db.session.commit\<close> is taken to
  succeed; each commit is recorded with the table it leaves, and so is the call of
  \<open>generate_pdf_report\<close>, to tell what is stored before rendering begins.
\<close>

record analysis_row =
  repo_name :: pystr
  score :: pyfloat
  pdf_path :: pystr

datatype web_event = Commit "analysis_row list" | RenderCalled

datatype response = Redirect pystr | Template pystr

record web_env =
  analyze_repo_with_agents :: "pystr \<Rightarrow> py_exn + pyobj"
  renderer :: report_env
  fault_text :: "py_fault \<Rightarrow> pystr"

record request =
  is_post :: bool
  form_repo_url :: "pystr option"

record index_result =
  reply :: response
  flashed :: "(pystr \<times> pystr) list"
  table :: "analysis_row list"
  events :: "web_event list"

text \<open>
  \<open>s.replace(old, new)\<close> for a pattern that is not empty; the first argument counts
  the characters of an occurrence that are still to be skipped.
\<close>

fun replace_from :: "nat \<Rightarrow> pystr \<Rightarrow> pystr \<Rightarrow> pystr \<Rightarrow> pystr" where
  "replace_from k old new [] = []"
| "replace_from (Suc k) old new (c # cs) = replace_from k old new cs"
| "replace_from 0 old new (c # cs) =
     (if old \<noteq> [] \<and> prefix old (c # cs)
      then new @ replace_from (length old - 1) old new cs
      else c # replace_from 0 old new cs)"

definition py_replace :: "pystr \<Rightarrow> pystr \<Rightarrow> pystr \<Rightarrow> pystr" where
  "py_replace old new s = replace_from 0 old new s"

definition summary_section :: "pyobj \<Rightarrow> (pystr \<times> pyobj) list" where
  "summary_section result_text =
     [(U ''type'', OStr (U ''summary'')), (U ''file'', OStr []),
      (U ''line'', OOther (U ''0'') False),
      (U ''message'', OStr (U ''Detailed Multi-Agent AI Report'')),
      (U ''suggestion'', result_text)]"

text \<open>Step 4 of the route: the inner \<open>try\<close> statement, on the table with the new row last.\<close>

definition store_report :: "web_env \<Rightarrow> pystr \<Rightarrow> pyobj \<Rightarrow> analysis_row list \<Rightarrow> analysis_row \<Rightarrow> analysis_row list" where
  "store_report env repo_url result_text rows record =
     (case outcome (generate_pdf_report (renderer env) repo_url [summary_section result_text]
                      result_text) of
        Inr path \<Rightarrow>
          rows @ [record\<lparr>pdf_path :=
                    (if prefix (U ''static/'') path then py_replace (U ''static/'') [] path
                     else path)\<rparr>]
      | Inl pdf_err \<Rightarrow> rows @ [record\<lparr>pdf_path := U ''Error generating PDF''\<rparr>])"

definition index :: "web_env \<Rightarrow> request \<Rightarrow> analysis_row list \<Rightarrow> index_result" where
  "index env req rows =
     (if is_post req then
        (let repo_url = strip (case form_repo_url req of None \<Rightarrow> [] | Some u \<Rightarrow> u) in
         if repo_url = [] then
           \<lparr>reply = Redirect (U ''index''),
            flashed = [([9888, 65039] @ U '' Please enter a GitHub repository URL.'', U ''warning'')],
            table = rows, events = []\<rparr>
         else
           (case analyze_repo_with_agents env repo_url of
              Inl e \<Rightarrow>
                \<lparr>reply = Redirect (U ''index''),
                 flashed = [([10060] @ U '' Analysis failed: '' @ exn_str e, U ''danger'')],
                 table = rows, events = []\<rparr>
            | Inr result_text \<Rightarrow>
                (case extract_score (obj_repr (renderer env)) result_text of
                   Inl f \<Rightarrow>
                     \<lparr>reply = Redirect (U ''index''),
                      flashed = [([10060] @ U '' Analysis failed: '' @ fault_text env f,
                                  U ''danger'')],
                      table = rows, events = []\<rparr>
                 | Inr sc \<Rightarrow>
                     (let record = \<lparr>repo_name = repo_url, score = sc,
                                     pdf_path = U ''Generating...''\<rparr>;
                          final = store_report env repo_url result_text rows record
                      in \<lparr>reply = Redirect (U ''dashboard''),
                          flashed = [([9989] @ U '' Full detailed analysis complete! View report in Dashboard.'',
                                      U ''success'')],
                          table = final,
                          events = [Commit (rows @ [record]), RenderCalled, Commit final]\<rparr>))))
      else \<lparr>reply = Template (U ''index.html''), flashed = [], table = rows, events = []\<rparr>)"

text \<open>An agent layer that answers with one summary, for concrete runs.\<close>

definition sample_web :: "report_env \<Rightarrow> web_env" where
  "sample_web renv =
     \<lparr>analyze_repo_with_agents =
        (\<lambda>url. Inr (OList [ODict [(U ''type'', OStr (U ''summary'')),
                                  (U ''suggestion'', OStr (U ''Overall score: 8.5/10 done''))]])),
      renderer = renv, fault_text = (\<lambda>f. [])\<rparr>"

text \<open>A library that refuses every call.\<close>

definition broken_pdf :: report_env where
  "broken_pdf = no_fonts\<lparr>fpdf_call := (\<lambda>made c. Some (RuntimeError (U ''disk full'')))\<rparr>"

definition sample_request :: request where
  "sample_request = \<lparr>is_post = True, form_repo_url = Some (U '' https://github.com/a/b '')\<rparr>"

section \<open>Theorems\<close>

subsection \<open>Text methods on ASCII text\<close>

lemma is_digit_cp_ascii: "c < 128 \<Longrightarrow> is_digit_cp c \<longleftrightarrow> 48 \<le> c \<and> c \<le> 57"
  by (simp add: is_digit_cp_def in_ranges_def digit_ranges_def)

lemma to_lower_full_ascii:
  "c < 128 \<Longrightarrow> to_lower_full c = [if 65 \<le> c \<and> c \<le> 90 then c + 32 else c]"
  by (simp add: to_lower_full_def run_image_def lower_runs_def)

lemma lower_from_ascii: "list_all (\<lambda>c. c < 128) s \<Longrightarrow> lower_from left s = ascii_lower s"
  by (induction s arbitrary: left) (simp_all add: ascii_lower_def lower_ucs4_def to_lower_full_ascii)

lemma lower_ascii: "list_all (\<lambda>c. c < 128) s \<Longrightarrow> lower s = ascii_lower s"
  by (simp add: lower_def lower_from_ascii)


lemma chat_attempts_rate_prefix:
  "\<forall>i<j. \<exists>e. create env (length (api_calls w) + i) p = Inl e \<and> is_rate_error e \<Longrightarrow> j \<le> k \<Longrightarrow> d \<le> 16 \<Longrightarrow>
   chat_attempts env p k d w =
   chat_attempts env p (k - j) (min (d * 2 ^ j) 16)
     (w\<lparr>api_calls := api_calls w @ replicate j p,
        sleeps := sleeps w @ map (\<lambda>i. min (d * 2 ^ i) 16) [0..<j]\<rparr>)"
proof (induction j arbitrary: k d w)
  case 0
  then show ?case by simp
next
  case (Suc j)
  then obtain k' where k: "k = Suc k'" and jk: "j \<le> k'" by (cases k) auto
  from Suc.prems(1) obtain e where e: "create env (length (api_calls w)) p = Inl e" "is_rate_error e"
    by force
  let ?w = "w\<lparr>api_calls := api_calls w @ [p], sleeps := sleeps w @ [d]\<rparr>"
  have step: "chat_attempts env p k d w = chat_attempts env p k' (min (d * 2) 16) ?w"
    using e k by (simp add: Let_def)
  have pre: "\<forall>i<j. \<exists>e. create env (length (api_calls ?w) + i) p = Inl e \<and> is_rate_error e"
    using Suc.prems(1) by (auto dest: spec [where x = "Suc i" for i])
  have d': "min (d * 2) 16 \<le> 16" by simp
  have m: "min (min (d * 2) 16 * 2 ^ i) 16 = min (d * 2 ^ Suc i) 16" for i
  proof (cases "d * 2 \<le> 16")
    case True
    then show ?thesis by (simp add: mult.assoc)
  next
    case False
    have one: "(1::nat) \<le> 2 ^ i" by simp
    have a: "min (d * 2) 16 = 16" using False by simp
    have "16 * 1 \<le> 16 * (2::nat) ^ i" using one by (rule mult_le_mono2)
    then have lhs: "min (16 * 2 ^ i) 16 = (16::nat)" by (intro min_absorb2) simp
    have x: "d \<le> d * 2 ^ i" by simp
    have "d * 2 ^ Suc i = 2 * (d * 2 ^ i)" by simp
    then have "16 \<le> d * 2 ^ Suc i" using x False by linarith
    then have rhs: "min (d * 2 ^ Suc i) 16 = 16" by (rule min_absorb2)
    show ?thesis unfolding a lhs rhs ..
  qed
  have l: "map (\<lambda>i. min (d * 2 ^ i) 16) [0..<Suc j] = d # map (\<lambda>i. min (d * 2 ^ Suc i) 16) [0..<j]"
    using Suc.prems(3) by (simp add: upt_rec [of 0] map_Suc_upt [symmetric] del: upt_Suc)
  show ?case
    unfolding step Suc.IH [OF pre jk d'] using k
    by (simp add: m l replicate_app_Cons_same del: upt_Suc)
qed

lemma chat_after_rate_errors:
  assumes "use_llm env" and "j \<le> retries"
    and "\<forall>i<j. \<exists>e. create env (length (api_calls w) + i) p = Inl e \<and> is_rate_error e"
  shows "chat env p retries w =
         chat_attempts env p (retries - j) (min (2 * 2 ^ j) 16)
           (w\<lparr>chat_calls := chat_calls w @ [p], api_calls := api_calls w @ replicate j p,
              sleeps := sleeps w @ map (\<lambda>i. min (2 * 2 ^ i) 16) [0..<j]\<rparr>)"
proof -
  let ?w0 = "w\<lparr>chat_calls := chat_calls w @ [p]\<rparr>"
  have pre: "\<forall>i<j. \<exists>e. create env (length (api_calls ?w0) + i) p = Inl e \<and> is_rate_error e"
    using assms(3) by simp
  have "chat env p retries w = chat_attempts env p retries 2 ?w0"
    using assms(1) by (simp add: chat_def)
  also have "\<dots> = chat_attempts env p (retries - j) (min (2 * 2 ^ j) 16)
      (?w0\<lparr>api_calls := api_calls ?w0 @ replicate j p,
           sleeps := sleeps ?w0 @ map (\<lambda>i. min (2 * 2 ^ i) 16) [0..<j]\<rparr>)"
    by (rule chat_attempts_rate_prefix [OF pre assms(2)]) simp
  finally show ?thesis by simp
qed

lemma suggest_fallback:
  "(0::int) < b \<Longrightarrow> chat env p 3 w = (Inl e, w') \<Longrightarrow> suggest env p iss (b, w) = (offline_hint iss, b, w')"
  by (simp add: suggest_def)

text \<open>
  Claim C4. With the model enabled, let the first \<open>j\<close> requests of one invocation of
  \<open>_chat\<close> fail with errors whose lower-cased text contains \<open>rate\<close> or \<open>quota\<close>.
  Each of them is followed by a sleep, and the delays are 2, 4, 8, 16, 16, ...: they start
  at 2 and double up to the ceiling 16. If that uses up all \<open>retries\<close> attempts
  (three by default), \<open>_chat\<close> raises \<open>LLM_RATE_LIMIT\<close>. Otherwise the next request
  decides: a completion is returned stripped, with no further delay, and any error that
  is not a rate error is raised again at once, with no retry and no delay. Whenever
  \<open>_chat\<close> raises, the caller's suggestion is the rule-based hint. With two rate errors
  and a success the delays are exactly 2 and 4.
\<close>

theorem chat_retry_policy:
  assumes "use_llm env" and "j \<le> retries"
    and "\<forall>i<j. \<exists>e. create env (length (api_calls w) + i) p = Inl e \<and> is_rate_error e"
  shows "(j = retries \<longrightarrow>
            chat env p retries w =
              (Inl (RuntimeError (U ''LLM_RATE_LIMIT'')),
               w\<lparr>chat_calls := chat_calls w @ [p], api_calls := api_calls w @ replicate j p,
                  sleeps := sleeps w @ map (\<lambda>i. min (2 * 2 ^ i) 16) [0..<j]\<rparr>)) \<and>
         (j < retries \<longrightarrow>
            (\<forall>c. create env (length (api_calls w) + j) p = Inr c \<longrightarrow>
               chat env p retries w =
                 (Inr (strip c),
                  w\<lparr>chat_calls := chat_calls w @ [p],
                     api_calls := api_calls w @ replicate (Suc j) p,
                     sleeps := sleeps w @ map (\<lambda>i. min (2 * 2 ^ i) 16) [0..<j]\<rparr>)) \<and>
            (\<forall>e. create env (length (api_calls w) + j) p = Inl e \<and> \<not> is_rate_error e \<longrightarrow>
               chat env p retries w =
                 (Inl e,
                  w\<lparr>chat_calls := chat_calls w @ [p],
                     api_calls := api_calls w @ replicate (Suc j) p,
                     sleeps := sleeps w @ map (\<lambda>i. min (2 * 2 ^ i) 16) [0..<j]\<rparr>))) \<and>
         (\<forall>(b::int) iss e w'. 0 < b \<and> chat env p 3 w = (Inl e, w') \<longrightarrow>
            suggest env p iss (b, w) = (offline_hint iss, b, w'))"
proof (intro conjI impI allI)
  assume "j = retries"
  then show "chat env p retries w =
      (Inl (RuntimeError (U ''LLM_RATE_LIMIT'')),
       w\<lparr>chat_calls := chat_calls w @ [p], api_calls := api_calls w @ replicate j p,
          sleeps := sleeps w @ map (\<lambda>i. min (2 * 2 ^ i) 16) [0..<j]\<rparr>)"
    unfolding chat_after_rate_errors [OF assms] by simp
next
  fix c
  assume "j < retries" and "create env (length (api_calls w) + j) p = Inr c"
  then obtain k where "retries - j = Suc k" by (cases "retries - j") auto
  then show "chat env p retries w =
      (Inr (strip c),
       w\<lparr>chat_calls := chat_calls w @ [p], api_calls := api_calls w @ replicate (Suc j) p,
          sleeps := sleeps w @ map (\<lambda>i. min (2 * 2 ^ i) 16) [0..<j]\<rparr>)"
    unfolding chat_after_rate_errors [OF assms]
    using \<open>create env (length (api_calls w) + j) p = Inr c\<close>
    by (simp add: replicate_append_same)
next
  fix e
  assume "j < retries" and e: "create env (length (api_calls w) + j) p = Inl e \<and> \<not> is_rate_error e"
  then obtain k where "retries - j = Suc k" by (cases "retries - j") auto
  then show "chat env p retries w =
      (Inl e,
       w\<lparr>chat_calls := chat_calls w @ [p], api_calls := api_calls w @ replicate (Suc j) p,
          sleeps := sleeps w @ map (\<lambda>i. min (2 * 2 ^ i) 16) [0..<j]\<rparr>)"
    unfolding chat_after_rate_errors [OF assms]
    using e by (simp add: replicate_append_same)
next
  fix b :: int and iss e w'
  assume "0 < b \<and> chat env p 3 w = (Inl e, w')"
  then show "suggest env p iss (b, w) = (offline_hint iss, b, w')"
    by (simp add: suggest_fallback)
qed


lemma rate_limit_is_rate_error: "is_rate_error (ApiError (U ''Rate limit reached''))"
  by (simp add: is_rate_error_def U_def lower_ascii ascii_lower_def)

lemma quota_is_rate_error: "is_rate_error (ApiError (U ''Quota exceeded''))"
  by (simp add: is_rate_error_def U_def lower_ascii ascii_lower_def)

lemma refused_is_no_rate_error: "\<not> is_rate_error (ApiError (U ''Connection refused''))"
  by (simp add: is_rate_error_def U_def lower_ascii ascii_lower_def)

lemma strip_answer: "strip (U '' Why: x. Fix: y. '') = U ''Why: x. Fix: y.''"
  by (simp add: strip_def is_space_def U_def)

lemma replicate_3: "replicate 3 x = [x, x, x]"
  by (simp add: numeral_3_eq_3)

lemma delays_2: "map (\<lambda>i. min (2 * 2 ^ i) 16) [0..<2] = [2, 4::nat]"
  by code_simp

lemma delays_3: "map (\<lambda>i. min (2 * 2 ^ i) 16) [0..<3] = [2, 4, 8::nat]"
  by code_simp

theorem chat_retry_policy_witness:
  "chat env_rate2 (U ''p'') 3 world0 =
     (Inr (U ''Why: x. Fix: y.''),
      \<lparr>chat_calls = [U ''p''], api_calls = [U ''p'', U ''p'', U ''p''], sleeps = [2, 4]\<rparr>) \<and>
   chat env_quota (U ''p'') 3 world0 =
     (Inl (RuntimeError (U ''LLM_RATE_LIMIT'')),
      \<lparr>chat_calls = [U ''p''], api_calls = [U ''p'', U ''p'', U ''p''], sleeps = [2, 4, 8]\<rparr>) \<and>
   chat env_down (U ''p'') 3 world0 =
     (Inl (ApiError (U ''Connection refused'')),
      \<lparr>chat_calls = [U ''p''], api_calls = [U ''p''], sleeps = []\<rparr>) \<and>
   fst (suggest env_quota (U ''p'') (BanditIssue sample_bandit) (1, world0)) = offline_hint (BanditIssue sample_bandit) \<and>
   fst (suggest env_down (U ''p'') (BanditIssue sample_bandit) (1, world0)) = offline_hint (BanditIssue sample_bandit)"
proof -
  have a: "chat env_rate2 (U ''p'') 3 world0 =
     (Inr (U ''Why: x. Fix: y.''),
      \<lparr>chat_calls = [U ''p''], api_calls = [U ''p'', U ''p'', U ''p''], sleeps = [2, 4]\<rparr>)"
    using chat_retry_policy [of env_rate2 2 3 world0 "U ''p''"]
    by (simp add: rate_limit_is_rate_error env_rate2_def world0_def strip_answer replicate_3 delays_2)
  have b: "chat env_quota (U ''p'') 3 world0 =
     (Inl (RuntimeError (U ''LLM_RATE_LIMIT'')),
      \<lparr>chat_calls = [U ''p''], api_calls = [U ''p'', U ''p'', U ''p''], sleeps = [2, 4, 8]\<rparr>)"
    using chat_retry_policy [of env_quota 3 3 world0 "U ''p''"]
    by (simp add: quota_is_rate_error env_quota_def world0_def replicate_3 delays_3)
  have c: "chat env_down (U ''p'') 3 world0 =
     (Inl (ApiError (U ''Connection refused'')),
      \<lparr>chat_calls = [U ''p''], api_calls = [U ''p''], sleeps = []\<rparr>)"
    using chat_retry_policy [of env_down 0 3 world0 "U ''p''"]
    by (simp add: refused_is_no_rate_error env_down_def world0_def)
  have d: "fst (suggest env_quota (U ''p'') (BanditIssue sample_bandit) (1, world0)) = offline_hint (BanditIssue sample_bandit)"
    using chat_retry_policy [of env_quota 3 3 world0 "U ''p''"] b
    by (simp add: quota_is_rate_error env_quota_def replicate_3 delays_3)
  have e: "fst (suggest env_down (U ''p'') (BanditIssue sample_bandit) (1, world0)) = offline_hint (BanditIssue sample_bandit)"
    using chat_retry_policy [of env_down 0 3 world0 "U ''p''"] c
    by (simp add: env_down_def)
  show ?thesis using a b c d e by blast
qed

lemma chat_attempts_completion:
  "chat_attempts env p k d w = (Inr t, w') \<Longrightarrow> \<exists>n c. create env n p = Inr c \<and> t = strip c"
proof (induction k arbitrary: d w)
  case 0
  then show ?case by simp
next
  case (Suc k)
  show ?case
  proof (cases "create env (length (api_calls w)) p")
    case (Inr c)
    with Suc.prems show ?thesis by (auto simp: Let_def)
  next
    case (Inl e)
    with Suc.prems Suc.IH show ?thesis by (auto simp: Let_def split: if_splits)
  qed
qed

lemma chat_completion:
  "chat env p r w = (Inr t, w') \<Longrightarrow> \<exists>n c. create env n p = Inr c \<and> t = strip c"
  by (auto simp: chat_def Let_def split: if_splits dest: chat_attempts_completion)

lemma suggest_explained_or_hinted:
  "suggest env p iss (b, w) = (t, b', w') \<Longrightarrow> explained_or_hinted env iss t"
  unfolding suggest_def explained_or_hinted_def
  by (auto split: if_splits prod.splits sum.splits dest: chat_completion)

lemma emit_appends:
  "\<exists>t. suggestions (emit env p iss mk s) = suggestions s @ [mk t] \<and> explained_or_hinted env iss t"
proof -
  obtain t b w where r: "suggest env p iss (llm_budget s, world s) = (t, b, w)"
    by (cases "suggest env p iss (llm_budget s, world s)") auto
  then have "explained_or_hinted env iss t" by (rule suggest_explained_or_hinted)
  then show ?thesis using r by (auto simp: emit_def)
qed

lemma pylint_step_appends:
  "\<exists>x. suggestions (pylint_step env f s iss) = suggestions s @ [x] \<and> pylint_suggestion env x (f, iss)"
  using emit_appends [of env _ "PylintIssue iss" _ s]
  unfolding pylint_step_def pylint_suggestion_def Let_def by fastforce

lemma bandit_step_appends:
  "\<exists>x. suggestions (bandit_step env s iss) = suggestions s @ [x] \<and> bandit_suggestion env x iss"
  using emit_appends [of env _ "BanditIssue iss" _ s]
  unfolding bandit_step_def bandit_suggestion_def Let_def by fastforce

lemma radon_step_appends:
  "\<exists>x. suggestions (radon_step env f s it) = suggestions s @ [x] \<and> radon_suggestion env x (f, it)"
  using emit_appends [of env _ "RadonItem it" _ s]
  unfolding radon_step_def radon_suggestion_def Let_def by fastforce

lemma foldl_appends_each:
  assumes "\<And>s x. \<exists>y. suggestions (step s x) = suggestions s @ [y] \<and> P y (g x)"
  shows "\<exists>ys. suggestions (foldl step s xs) = suggestions s @ ys \<and> list_all2 P ys (map g xs)"
proof (induction xs arbitrary: s)
  case Nil
  then show ?case by simp
next
  case (Cons x xs)
  from assms obtain y where y: "suggestions (step s x) = suggestions s @ [y]" "P y (g x)" by blast
  from Cons.IH [of "step s x"] obtain ys where
    ys: "suggestions (foldl step (step s x) xs) = suggestions (step s x) @ ys" "list_all2 P ys (map g xs)"
    by blast
  have "suggestions (foldl step s (x # xs)) = suggestions s @ (y # ys)" using y ys by simp
  moreover have "list_all2 P (y # ys) (map g (x # xs))" using y ys by simp
  ultimately show ?case by blast
qed

lemma foldl_appends_groups:
  assumes "\<And>s x. \<exists>ys. suggestions (step s x) = suggestions s @ ys \<and> list_all2 P ys (g x)"
  shows "\<exists>ys. suggestions (foldl step s xs) = suggestions s @ ys \<and> list_all2 P ys (concat (map g xs))"
proof (induction xs arbitrary: s)
  case Nil
  then show ?case by simp
next
  case (Cons x xs)
  from assms obtain y where y: "suggestions (step s x) = suggestions s @ y" "list_all2 P y (g x)" by blast
  from Cons.IH [of "step s x"] obtain ys where
    ys: "suggestions (foldl step (step s x) xs) = suggestions (step s x) @ ys"
        "list_all2 P ys (concat (map g xs))"
    by blast
  have "suggestions (foldl step s (x # xs)) = suggestions s @ (y @ ys)" using y ys by simp
  moreover have "list_all2 P (y @ ys) (concat (map g (x # xs)))"
    using y ys by (simp add: list_all2_appendI)
  ultimately show ?case by blast
qed

lemma slice_to_bound: "0 \<le> n \<Longrightarrow> length (slice_to n xs) \<le> nat n"
  by (simp add: slice_to_def)

lemma length_concat_bound:
  "(\<And>x. x \<in> set xs \<Longrightarrow> length (g x) \<le> n) \<Longrightarrow> length (concat (map g xs)) \<le> n * length xs"
  by (induction xs) (auto simp: add_mono)

lemma emit_raised: "raised (emit env p iss mk s) = raised s"
  by (cases "suggest env p iss (llm_budget s, world s)") (simp add: emit_def)

lemma foldl_radon_step_raised: "raised (foldl (radon_step env f) s xs) = raised s"
  by (induction xs arbitrary: s) (simp_all add: radon_step_def Let_def emit_raised)

lemma foldl_bandit_step_raised: "raised (foldl (bandit_step env) s xs) = raised s"
  by (induction xs arbitrary: s) (simp_all add: bandit_step_def Let_def emit_raised)

lemma foldl_pylint_step_raised: "raised (foldl (pylint_step env f) s xs) = raised s"
  by (induction xs arbitrary: s) (simp_all add: pylint_step_def Let_def emit_raised)

lemma foldl_pylint_entries_raised:
  "raised (foldl (\<lambda>s entry. foldl (pylint_step env (pe_file entry)) s (slice_to n (pe_issues entry))) s es) =
   raised s"
  by (induction es arbitrary: s) (simp_all add: foldl_pylint_step_raised)

lemma radon_loop_raised:
  "raised (radon_loop env s xs) = (if list_ex is_error_object xs then Some TypeError else raised s)"
  by (induction env s xs rule: radon_loop.induct) (simp_all add: foldl_radon_step_raised)

lemma radon_loop_appends:
  "\<exists>ys. suggestions (radon_loop env s xs) = suggestions s @ ys \<and>
        list_all2 (radon_suggestion env) ys (radon_blocks xs)"
proof (induction env s xs rule: radon_loop.induct)
  case (1 env s)
  then show ?case by simp
next
  case (2 env s f items rest)
  let ?s' = "foldl (radon_step env f) s (slice_to 2 items)"
  obtain ys where ys: "suggestions ?s' = suggestions s @ ys"
      "list_all2 (radon_suggestion env) ys (map (Pair f) (slice_to 2 items))"
    using foldl_appends_each [where step = "radon_step env f" and P = "radon_suggestion env"
        and g = "Pair f" and s = s and xs = "slice_to 2 items", OF radon_step_appends]
    by blast
  obtain zs where zs: "suggestions (radon_loop env ?s' rest) = suggestions ?s' @ zs"
      "list_all2 (radon_suggestion env) zs (radon_blocks rest)"
    using 2 by blast
  have "suggestions (radon_loop env s ((f, Blocks items) # rest)) = suggestions s @ (ys @ zs)"
    using ys zs by simp
  moreover have "list_all2 (radon_suggestion env) (ys @ zs) (radon_blocks ((f, Blocks items) # rest))"
    using ys zs by (simp add: list_all2_appendI)
  ultimately show ?case by blast
next
  case (3 env s f e rest)
  then show ?case by simp
qed

text \<open>
  The suggestions that the pass has appended when it ends are, in this order, one for
  each pylint message iterated (for each entry its first \<open>max_llm_calls\<close> messages), one
  for each of the first three bandit results, and one for each of the first two blocks
  of the first three radon files, up to a file with an error object. Each carries its
  finding's type, file, line and message, and its text is the offline hint or a
  completion of the endpoint. They are returned when none of the first three radon
  files has an error object; otherwise the pass raises \<open>TypeError\<close>.
\<close>

lemma suggestions_in_order:
  "(\<exists>ps bs rs. suggestions (reason_run env a n w) = ps @ bs @ rs \<and>
      list_all2 (pylint_suggestion env) ps (pylint_iterated a n) \<and>
      list_all2 (bandit_suggestion env) bs (bandit_iterated a) \<and>
      list_all2 (radon_suggestion env) rs (radon_iterated a)) \<and>
   length (suggestions (reason_run env a n w)) =
     length (pylint_iterated a n) + length (bandit_iterated a) + length (radon_iterated a) \<and>
   reason_over_findings env a n w =
     (if list_ex is_error_object (slice_to 3 (radon a)) then Inl TypeError
      else Inr (suggestions (reason_run env a n w)))"
proof -
  let ?s0 = "\<lparr>suggestions = [], llm_budget = n, world = w, raised = None\<rparr>"
  let ?pstep = "\<lambda>s entry. foldl (pylint_step env (pe_file entry)) s (slice_to n (pe_issues entry))"
  let ?s1 = "foldl ?pstep ?s0 (pylint a)"
  let ?s2 = "foldl (bandit_step env) ?s1 (slice_to 3 (bandit_results a))"
  let ?s3 = "radon_loop env ?s2 (slice_to 3 (radon a))"
  have run: "reason_run env a n w = ?s3" by (simp add: reason_run_def Let_def)
  have p: "\<exists>ys. suggestions (?pstep s entry) = suggestions s @ ys \<and>
      list_all2 (pylint_suggestion env) ys (map (Pair (pe_file entry)) (slice_to n (pe_issues entry)))" for s entry
    by (rule foldl_appends_each) (rule pylint_step_appends)
  obtain ps where ps: "suggestions ?s1 = ps" "list_all2 (pylint_suggestion env) ps (pylint_iterated a n)"
    using foldl_appends_groups [where step = ?pstep and P = "pylint_suggestion env" and s = ?s0 and xs = "pylint a", OF p]
    unfolding pylint_iterated_def by auto
  obtain bs where bs: "suggestions ?s2 = ps @ bs" "list_all2 (bandit_suggestion env) bs (bandit_iterated a)"
    using foldl_appends_each [where step = "bandit_step env" and P = "bandit_suggestion env" and g = "\<lambda>x. x"
        and s = ?s1 and xs = "slice_to 3 (bandit_results a)", OF bandit_step_appends]
    unfolding bandit_iterated_def ps(1) by auto
  obtain rs where rs: "suggestions ?s3 = (ps @ bs) @ rs" "list_all2 (radon_suggestion env) rs (radon_iterated a)"
    using radon_loop_appends [of env ?s2 "slice_to 3 (radon a)"]
    unfolding radon_iterated_def bs(1) by auto
  have sg: "suggestions (reason_run env a n w) = ps @ bs @ rs" using rs(1) run by simp
  have len: "length (suggestions (reason_run env a n w)) =
     length (pylint_iterated a n) + length (bandit_iterated a) + length (radon_iterated a)"
    using ps(2) bs(2) rs(2) unfolding sg by (simp add: list_all2_lengthD)
  have "raised ?s2 = None"
    by (simp add: foldl_bandit_step_raised foldl_pylint_entries_raised)
  then have "raised (reason_run env a n w) =
      (if list_ex is_error_object (slice_to 3 (radon a)) then Some TypeError else None)"
    unfolding run by (simp add: radon_loop_raised)
  then have res: "reason_over_findings env a n w =
     (if list_ex is_error_object (slice_to 3 (radon a)) then Inl TypeError
      else Inr (suggestions (reason_run env a n w)))"
    by (simp add: reason_over_findings_def Let_def)
  show ?thesis using sg ps(2) bs(2) rs(2) len res by blast
qed

lemma iterated_bounds:
  "(0 \<le> n \<longrightarrow> length (pylint_iterated a n) \<le> nat n * length (pylint a)) \<and>
   length (bandit_iterated a) \<le> 3 \<and> length (radon_iterated a) \<le> 2 * 3"
proof -
  have pb: "0 \<le> n \<longrightarrow> length (pylint_iterated a n) \<le> nat n * length (pylint a)"
    unfolding pylint_iterated_def by (intro impI length_concat_bound) (simp add: slice_to_bound)
  have bb: "length (bandit_iterated a) \<le> 3"
    by (simp add: bandit_iterated_def slice_to_def)
  have "length (radon_blocks xs) \<le> 2 * length xs" for xs :: "(pystr \<times> radon_entry) list"
    by (induction xs rule: radon_blocks.induct) (simp_all add: slice_to_def)
  from this [of "slice_to 3 (radon a)"] have rb: "length (radon_iterated a) \<le> 2 * 3"
    by (simp add: radon_iterated_def slice_to_def)
  show ?thesis using pb bb rb by blast
qed

lemma busy_iterated:
  "length (pylint_iterated busy 2) = 2" "length (bandit_iterated busy) = 3"
  "length (radon_iterated busy) = 6"
  by (simp_all add: pylint_iterated_def bandit_iterated_def radon_iterated_def busy_def slice_to_def)

lemma unparsable_iterated:
  "length (pylint_iterated unparsable 8) = 1" "length (bandit_iterated unparsable) = 1"
  "length (radon_iterated unparsable) = 1" "list_ex is_error_object (slice_to 3 (radon unparsable))"
  by (simp_all add: pylint_iterated_def bandit_iterated_def radon_iterated_def unparsable_def slice_to_def)

text \<open>
  Claim C5, at a failing input. The analysis has a pylint message, a bandit result and
  a report of radon in which the second file has the error object that radon writes for
  a file it cannot parse. Whatever the endpoint does, the pass appends three
  suggestions, for the message, the result and the block of the first radon file, and
  then \<open>items[:2]\<close> raises \<open>TypeError\<close> on the error object: no suggestion is returned.
\<close>

theorem radon_error_object_raises:
  "reason_over_findings env unparsable 8 w = Inl TypeError \<and>
   length (suggestions (reason_run env unparsable 8 w)) = 3"
  using suggestions_in_order [of env unparsable 8 w]
  by (simp add: unparsable_iterated)

lemma chat_all_rate_limited:
  assumes "use_llm env" and "\<forall>k p. \<exists>e. create env k p = Inl e \<and> is_rate_error e"
  shows "chat env p r w =
           (Inl (RuntimeError (U ''LLM_RATE_LIMIT'')),
            w\<lparr>chat_calls := chat_calls w @ [p], api_calls := api_calls w @ replicate r p,
               sleeps := sleeps w @ map (\<lambda>i. min (2 * 2 ^ i) 16) [0..<r]\<rparr>)"
proof -
  have "\<forall>i<r. \<exists>e. create env (length (api_calls w) + i) p = Inl e \<and> is_rate_error e"
    using assms(2) by simp
  from chat_after_rate_errors [OF assms(1) order_refl this] show ?thesis by simp
qed

lemma emit_all_rate_limited:
  assumes "use_llm env" and "\<forall>k p. \<exists>e. create env k p = Inl e \<and> is_rate_error e"
    and "0 < llm_budget s"
  shows "charged s 1 (emit env p iss mk s)"
  using assms(3)
  by (simp add: emit_def suggest_def chat_all_rate_limited [OF assms(1,2)] charged_def)

lemma foldl_charged_each:
  assumes "\<And>s x. 0 < llm_budget s \<Longrightarrow> charged s 1 (step s x)" and "0 < llm_budget s"
  shows "charged s (length xs) (foldl step s xs)"
  using assms(2)
proof (induction xs arbitrary: s)
  case Nil
  then show ?case by (simp add: charged_def)
next
  case (Cons x xs)
  have one: "charged s 1 (step s x)" using Cons.prems by (rule assms(1))
  then have "0 < llm_budget (step s x)" using Cons.prems by (simp add: charged_def)
  from Cons.IH [OF this] one show ?case by (simp add: charged_def)
qed

lemma foldl_charged_groups:
  assumes "\<And>s x. 0 < llm_budget s \<Longrightarrow> charged s (length (g x)) (step s x)" and "0 < llm_budget s"
  shows "charged s (length (concat (map g xs))) (foldl step s xs)"
  using assms(2)
proof (induction xs arbitrary: s)
  case Nil
  then show ?case by (simp add: charged_def)
next
  case (Cons x xs)
  have one: "charged s (length (g x)) (step s x)" using Cons.prems by (rule assms(1))
  then have "0 < llm_budget (step s x)" using Cons.prems by (simp add: charged_def)
  from Cons.IH [OF this] one show ?case by (simp add: charged_def algebra_simps)
qed

lemma charged_trans: "charged s m s' \<Longrightarrow> charged s' n s'' \<Longrightarrow> charged s (m + n) s''"
  by (simp add: charged_def algebra_simps)

lemma radon_loop_charged:
  assumes r1: "\<And>s f i. 0 < llm_budget s \<Longrightarrow> charged s 1 (radon_step env f s i)"
  shows "0 < llm_budget s \<Longrightarrow> charged s (length (radon_blocks xs)) (radon_loop env s xs)"
proof (induction xs arbitrary: s)
  case Nil
  then show ?case by (simp add: charged_def)
next
  case (Cons x xs)
  obtain f e where x: "x = (f, e)" by (cases x)
  show ?case
  proof (cases e)
    case (Blocks items)
    let ?s' = "foldl (radon_step env f) s (slice_to 2 items)"
    have one: "charged s (length (slice_to 2 items)) ?s'"
      using foldl_charged_each [where step = "radon_step env f", OF r1 Cons.prems] .
    then have "0 < llm_budget ?s'" using Cons.prems by (simp add: charged_def)
    then have "charged ?s' (length (radon_blocks xs)) (radon_loop env ?s' xs)" by (rule Cons.IH)
    with one have "charged s (length (slice_to 2 items) + length (radon_blocks xs)) (radon_loop env ?s' xs)"
      by (rule charged_trans)
    then show ?thesis by (simp add: x Blocks)
  next
    case (ErrorObject m)
    then show ?thesis by (simp add: x charged_def)
  qed
qed

lemma reason_run_all_rate_limited:
  assumes env: "use_llm env" "\<forall>k p. \<exists>e. create env k p = Inl e \<and> is_rate_error e"
    and n: "0 < n"
  shows "charged \<lparr>suggestions = [], llm_budget = n, world = w, raised = None\<rparr>
           (length (pylint_iterated a n) + length (bandit_iterated a) + length (radon_iterated a))
           (reason_run env a n w)"
proof -
  let ?s0 = "\<lparr>suggestions = [], llm_budget = n, world = w, raised = None\<rparr>"
  let ?pstep = "\<lambda>s entry. foldl (pylint_step env (pe_file entry)) s (slice_to n (pe_issues entry))"
  let ?s1 = "foldl ?pstep ?s0 (pylint a)"
  let ?s2 = "foldl (bandit_step env) ?s1 (slice_to 3 (bandit_results a))"
  let ?s3 = "radon_loop env ?s2 (slice_to 3 (radon a))"
  have p1: "0 < llm_budget s \<Longrightarrow> charged s 1 (pylint_step env f s i)" for s f i
    unfolding pylint_step_def Let_def by (rule emit_all_rate_limited [OF env])
  have b1: "0 < llm_budget s \<Longrightarrow> charged s 1 (bandit_step env s i)" for s i
    unfolding bandit_step_def Let_def by (rule emit_all_rate_limited [OF env])
  have r1: "0 < llm_budget s \<Longrightarrow> charged s 1 (radon_step env f s i)" for s f i
    unfolding radon_step_def Let_def by (rule emit_all_rate_limited [OF env])
  have p: "0 < llm_budget s \<Longrightarrow>
      charged s (length (map (Pair (pe_file entry)) (slice_to n (pe_issues entry)))) (?pstep s entry)" for s entry
    using foldl_charged_each [where step = "pylint_step env (pe_file entry)", OF p1] by simp
  have c1: "charged ?s0 (length (pylint_iterated a n)) ?s1"
    unfolding pylint_iterated_def
    by (rule foldl_charged_groups [where step = ?pstep, OF p]) (simp_all add: n)
  then have pos1: "0 < llm_budget ?s1" using n by (simp add: charged_def)
  have c2: "charged ?s1 (length (bandit_iterated a)) ?s2"
    unfolding bandit_iterated_def
    by (rule foldl_charged_each [where step = "bandit_step env", OF b1 pos1])
  then have pos2: "0 < llm_budget ?s2" using pos1 by (simp add: charged_def)
  have c3: "charged ?s2 (length (radon_iterated a)) ?s3"
    unfolding radon_iterated_def
    by (rule radon_loop_charged [OF r1 pos2])
  have "reason_run env a n w = ?s3" by (simp add: reason_run_def Let_def)
  then show ?thesis using c1 c2 c3 unfolding charged_def by (simp add: algebra_simps)
qed

lemma env_quota_all_rate_limited:
  "use_llm env_quota" "\<forall>k p. \<exists>e. create env_quota k p = Inl e \<and> is_rate_error e"
  by (simp_all add: env_quota_def quota_is_rate_error)

text \<open>
  Claim C2, at a failing input. The budget is 2, the analysis has 11 findings to iterate,
  and every request is answered with a quota error. \<open>_chat\<close> raises each time, the
  decrement after it is skipped, and the budget never falls: \<open>_chat\<close> is invoked for
  all 11 findings and sends 33 requests.
\<close>

theorem budget_not_respected:
  "length (chat_calls (world (reason_run env_quota busy 2 world0))) = 11 \<and>
   length (api_calls (world (reason_run env_quota busy 2 world0))) = 33"
  using reason_run_all_rate_limited [OF env_quota_all_rate_limited, of 2 world0 busy]
  by (simp add: charged_def busy_iterated world0_def)

lemma py_in_sublist: "py_in xs ys \<longleftrightarrow> sublist xs ys"
  by (induction ys) (auto simp: sublist_Cons_right)

lemma chat_attempts_chat_calls:
  "chat_calls (snd (chat_attempts env p k d w)) = chat_calls w"
  by (induction k arbitrary: d w) (auto simp: Let_def split: sum.splits)

lemma chat_chat_calls: "chat_calls (snd (chat env p r w)) = chat_calls w @ [p]"
  by (simp add: chat_def Let_def chat_attempts_chat_calls)

lemma suggest_with_budget:
  "0 < b \<Longrightarrow> chat_calls (snd (snd (suggest env p iss (b, w)))) = chat_calls w @ [p]"
  using chat_chat_calls [of env p 3 w]
  by (cases "chat env p 3 w") (auto simp: suggest_def split: sum.splits)

lemma suggest_completion:
  "0 < b \<Longrightarrow> chat env p 3 w = (Inr c, w') \<Longrightarrow> suggest env p iss (b, w) = (c, b - 1, w')"
  by (simp add: suggest_def)

lemma suggest_no_budget:
  "b \<le> 0 \<Longrightarrow> suggest env p iss (b, w) = (offline_hint iss, b - 1, w)"
  by (simp add: suggest_def)

lemma emit_world:
  "world (emit env p iss mk s) = snd (snd (suggest env p iss (llm_budget s, world s)))"
  by (cases "suggest env p iss (llm_budget s, world s)") (auto simp: emit_def)

text \<open>
  Claim C3, as amended. With budget left, the shared \<open>try\<close> block invokes \<open>_chat\<close>
  once, with the prompt it was given, and when the call returns a completion the budget
  falls by exactly one. With no budget left, no call is made, the finding gets its
  offline hint, and the budget falls by one all the same. For a pylint message the
  prompt is \<open>build_prompt\<close> of the file, the message, the line and the symbol, and each
  of the four occurs in it.
\<close>

theorem budget_step:
  "(0 < b \<longrightarrow>
      chat_calls (snd (snd (suggest env p iss (b, w)))) = chat_calls w @ [p] \<and>
      (\<forall>c w'. chat env p 3 w = (Inr c, w') \<longrightarrow> suggest env p iss (b, w) = (c, b - 1, w'))) \<and>
   (b \<le> 0 \<longrightarrow> suggest env p iss (b, w) = (offline_hint iss, b - 1, w)) \<and>
   (0 < llm_budget s \<longrightarrow>
      chat_calls (world (pylint_step env f s i)) =
        chat_calls (world s) @
          [build_prompt f (get_str (pi_message i)) (get_int (pi_line i)) (get_str (pi_symbol i))]) \<and>
   py_in file_path (build_prompt file_path msg line symbol) \<and>
   py_in (py_str line) (build_prompt file_path msg line symbol) \<and>
   py_in msg (build_prompt file_path msg line symbol) \<and>
   py_in symbol (build_prompt file_path msg line symbol)"
proof -
  have a: "0 < b \<longrightarrow>
      chat_calls (snd (snd (suggest env p iss (b, w)))) = chat_calls w @ [p] \<and>
      (\<forall>c w'. chat env p 3 w = (Inr c, w') \<longrightarrow> suggest env p iss (b, w) = (c, b - 1, w'))"
    by (simp add: suggest_with_budget suggest_completion)
  have b: "b \<le> 0 \<longrightarrow> suggest env p iss (b, w) = (offline_hint iss, b - 1, w)"
    by (simp add: suggest_no_budget)
  have c: "0 < llm_budget s \<longrightarrow>
      chat_calls (world (pylint_step env f s i)) =
        chat_calls (world s) @
          [build_prompt f (get_str (pi_message i)) (get_int (pi_line i)) (get_str (pi_symbol i))]"
    by (simp add: pylint_step_def Let_def emit_world suggest_with_budget)
  have d: "sublist file_path (build_prompt file_path msg line symbol)"
    unfolding build_prompt_def by (rule sublist_appendI)
  have e: "sublist (py_str line) (build_prompt file_path msg line symbol)"
    unfolding build_prompt_def
    using sublist_appendI [of "py_str line" "U ''File: '' @ file_path @ U ''\<newline>Line: ''"] by simp
  have f: "sublist msg (build_prompt file_path msg line symbol)"
    unfolding build_prompt_def
    using sublist_appendI [of msg "U ''File: '' @ file_path @ U ''\<newline>Line: '' @ py_str line @ U ''\<newline>Issue: ''"]
    by simp
  have g: "sublist symbol (build_prompt file_path msg line symbol)"
    unfolding build_prompt_def
    using sublist_appendI [of symbol "U ''File: '' @ file_path @ U ''\<newline>Line: '' @ py_str line @ U ''\<newline>Issue: '' @ msg @ U ''\<newline>Symbol: ''"]
    by simp
  show ?thesis using a b c d e f g by (simp add: py_in_sublist)
qed


theorem budget_step_witness:
  "suggest env_rate2 (U ''p'') (PylintIssue sample_pylint) (0, world0) =
     (offline_hint (PylintIssue sample_pylint), - 1, world0) \<and>
   chat_calls (snd (snd (suggest env_quota (U ''p'') (PylintIssue sample_pylint) (1, world0)))) = [U ''p'']"
  using budget_step [of 0 env_rate2 "U ''p''" "PylintIssue sample_pylint" world0]
    budget_step [of 1 env_quota "U ''p''" "PylintIssue sample_pylint" world0]
  by (simp add: world0_def)

lemma chat_other_error:
  "use_llm env \<Longrightarrow> create env (length (api_calls w)) p = Inl e \<Longrightarrow> \<not> is_rate_error e \<Longrightarrow>
   chat env p 3 w = (Inl e, w\<lparr>chat_calls := chat_calls w @ [p], api_calls := api_calls w @ [p]\<rparr>)"
  by (simp add: chat_def Let_def numeral_3_eq_3)

text \<open>
  Against claim C3 as stated: with the budget at 0 no call is made and the budget still
  falls, to \<open>-1\<close>; and with the budget at 1 a call that raises leaves the budget at 1.
\<close>

theorem budget_decrement_counterexample:
  "suggest env_rate2 (U ''p'') (BanditIssue sample_bandit) (0, world0) =
     (offline_hint (BanditIssue sample_bandit), - 1, world0) \<and>
   suggest env_down (U ''p'') (BanditIssue sample_bandit) (1, world0) =
     (offline_hint (BanditIssue sample_bandit), 1,
      \<lparr>chat_calls = [U ''p''], api_calls = [U ''p''], sleeps = []\<rparr>)"
proof -
  have "chat env_down (U ''p'') 3 world0 =
      (Inl (ApiError (U ''Connection refused'')),
       \<lparr>chat_calls = [U ''p''], api_calls = [U ''p''], sleeps = []\<rparr>)"
    using chat_other_error [of env_down world0 "U ''p''" "ApiError (U ''Connection refused'')"]
    by (simp add: env_down_def world0_def refused_is_no_rate_error)
  then show ?thesis by (simp add: suggest_def)
qed


subsection \<open>Floats and tokens\<close>


lemma rhe_of_int: "round_half_even (of_int n) = n"
  by (simp add: round_half_even_def)








lemma bitlen_small: "bitlen 1 = 1" "bitlen 2 = 2" "bitlen 3 = 2" "bitlen 8 = 4" "bitlen 249 = 8"
  by (simp_all add: compute_bitlen)

lemma ilog2_8_5: "ilog2 (17 / 2) = 3"
proof -
  have "\<lfloor>17 / 2 :: rat\<rfloor> = 8" by (rule floor_unique) simp_all
  then show ?thesis by (simp add: ilog2_def bitlen_small)
qed

lemma ilog2_2: "ilog2 2 = 1"
  by (simp add: ilog2_def bitlen_small)




lemma rhe_numeral: "round_half_even (numeral k) = numeral k"
  using rhe_of_int [of "numeral k"] by simp

lemma to_double_eval:
  assumes "0 < x" and "max (ilog2 x - 52) (- 1074) = q"
    and "round_half_even (x / 2 powi q) = m" and "of_int m * 2 powi q = v" and "v < 2 ^ 1024"
  shows "to_double x = Finite v"
  using assms by (simp add: to_double_def nearest_double_pos_def Let_def)

lemma to_double_2: "to_double 2 = Finite 2"
proof (rule to_double_eval)
  show "max (ilog2 2 - 52) (- 1074) = - 51" by (simp add: ilog2_2)
  show "round_half_even (2 / 2 powi (- 51)) = 2 ^ 52"
    using rhe_of_int [of "2 ^ 52"] by simp
  show "of_int (2 ^ 52) * 2 powi (- 51) = (2::rat)" by simp
qed simp_all


lemma to_double_8_5: "to_double (17 / 2) = Finite (17 / 2)"
proof (rule to_double_eval)
  show "max (ilog2 (17 / 2) - 52) (- 1074) = - 49" by (simp add: ilog2_8_5)
  show "round_half_even (17 / 2 / 2 powi (- 49)) = 17 * 2 ^ 48"
    using rhe_of_int [of "17 * 2 ^ 48"] by simp
  show "of_int (17 * 2 ^ 48) * 2 powi (- 49) = (17 / 2 :: rat)" by simp
qed simp_all


lemmas float_defs = py_float_def float_ascii_def U_def is_ascii_digit_def float_strip_def
  is_float_space_def parse_sign_def ascii_lower_def parse_number_def parse_exponent_def
  digits_val_def Let_def

lemma float_2: "py_float (U ''2'') = Some (Finite 2)"
  by (simp add: float_defs to_double_2)


lemma float_8_5: "py_float (U ''8.5'') = Some (Finite (17 / 2))"
  by (simp add: float_defs to_double_8_5)


lemma round_2: "py_round (Finite 2) 2 = Finite 2"
  using rhe_of_int [of 200] by (simp add: to_double_2)


lemma round_8_5: "py_round (Finite (17 / 2)) 2 = Finite (17 / 2)"
  using rhe_of_int [of 850] by (simp add: to_double_8_5)


lemmas token_defs = U_def isdigit_def is_digit_cp_ascii strip_chars_def

lemma scan_example_1:
  "scan_tokens (split (U ''Overall score: 8.5/10 done'')) = Finite (17 / 2)"
proof -
  have s: "split (U ''Overall score: 8.5/10 done'') = [U ''Overall'', U ''score:'', U ''8.5/10'', U ''done'']"
    by (simp add: split_def U_def is_space_def)
  have g: "\<not> (py_in (U ''/10'') (U ''Overall'') \<or> isdigit (remove1 46 (U ''Overall'')))"
    "\<not> (py_in (U ''/10'') (U ''score:'') \<or> isdigit (remove1 46 (U ''score:'')))"
    "py_in (U ''/10'') (U ''8.5/10'')"
    "strip_chars (U ''/10'') (U ''8.5/10'') = U ''8.5''"
    by (simp_all add: token_defs)
  show ?thesis unfolding s using g by (simp add: float_8_5 round_8_5 del: py_round.simps)
qed

lemma scan_example_2:
  "scan_tokens (split (U ''rating 12/10 but also 6.0'')) = Finite 2"
proof -
  have s: "split (U ''rating 12/10 but also 6.0'') = [U ''rating'', U ''12/10'', U ''but'', U ''also'', U ''6.0'']"
    by (simp add: split_def U_def is_space_def)
  have g: "\<not> (py_in (U ''/10'') (U ''rating'') \<or> isdigit (remove1 46 (U ''rating'')))"
    "py_in (U ''/10'') (U ''12/10'')"
    "strip_chars (U ''/10'') (U ''12/10'') = U ''2''"
    by (simp_all add: token_defs)
  show ?thesis unfolding s using g by (simp add: float_2 round_2 del: py_round.simps)
qed

lemma scan_example_3:
  "scan_tokens (split (U ''no numbers here'')) = Finite (15 / 2)"
proof -
  have s: "split (U ''no numbers here'') = [U ''no'', U ''numbers'', U ''here'']"
    by (simp add: split_def U_def is_space_def)
  have g: "\<not> (py_in (U ''/10'') (U ''no'') \<or> isdigit (remove1 46 (U ''no'')))"
    "\<not> (py_in (U ''/10'') (U ''numbers'') \<or> isdigit (remove1 46 (U ''numbers'')))"
    "\<not> (py_in (U ''/10'') (U ''here'') \<or> isdigit (remove1 46 (U ''here'')))"
    by (simp_all add: token_defs)
  show ?thesis unfolding s using g by simp
qed















text \<open>
  Claim C1, on the three inputs the specification names. For
  \<open>rating 12/10 but also 6.0\<close> the code returns 2.0, not 6.0: \<open>token.strip("/10")\<close>
  removes the characters \<open>/\<close>, \<open>1\<close> and \<open>0\<close> from both ends of \<open>12/10\<close> and
  leaves \<open>2\<close>, which is in range. The other two inputs give 8.5 and 7.5.
\<close>

theorem extract_score_examples:
  "extract_score no_repr (OStr (U ''rating 12/10 but also 6.0'')) = Inr (Finite 2) \<and>
   extract_score no_repr (OStr (U ''Overall score: 8.5/10 done'')) = Inr (Finite (17 / 2)) \<and>
   extract_score no_repr (OStr (U ''no numbers here'')) = Inr (Finite (15 / 2))"
  by (simp add: extract_score_def score_text_def scan_example_1 scan_example_2 scan_example_3)

lemma pylint_files_returns:
  assumes "\<forall>cmd. \<exists>r. run_cmd env cmd = Inr r"
  shows "\<exists>results. pylint_files env fs = Inr results \<and>
     list_all2 (\<lambda>f r. fst r = f \<and>
        (\<forall>code out err.
           run_cmd env [executable env, U ''-m'', U ''pylint'', f, U ''--output-format=json'']
             = Inr (code, out, err) \<longrightarrow>
           snd r = (case loads env (or_else out (U ''[]'')) of None \<Rightarrow> JArr [] | Some j \<Rightarrow> j)))
       fs results"
proof (induction fs)
  case Nil
  then show ?case by simp
next
  case (Cons f fs)
  from assms obtain code out err where
    r: "run_cmd env [executable env, U ''-m'', U ''pylint'', f, U ''--output-format=json''] = Inr (code, out, err)"
    by (metis prod_cases3)
  from Cons.IH obtain results where
    rs: "pylint_files env fs = Inr results" and
    all: "list_all2 (\<lambda>f r. fst r = f \<and>
        (\<forall>code out err.
           run_cmd env [executable env, U ''-m'', U ''pylint'', f, U ''--output-format=json'']
             = Inr (code, out, err) \<longrightarrow>
           snd r = (case loads env (or_else out (U ''[]'')) of None \<Rightarrow> JArr [] | Some j \<Rightarrow> j)))
       fs results"
    by blast
  show ?case using r rs all by (simp add: Let_def)
qed

text \<open>
  Claim C6. Suppose every process that is run returns, whatever it prints. Then
  \<open>run_pylint\<close> returns one entry for every file, in order, and the entry of a file
  whose output is not JSON, or is empty, has the empty issue list, whatever happens for
  the other files. In the same two cases \<open>run_bandit\<close> returns a document whose
  results are empty and \<open>run_radon_complexity\<close> returns the empty mapping. And
  \<open>analyze_repository\<close> returns its dictionary whenever the clone succeeds: no failure
  to parse stops it.
\<close>

theorem analyzers_degrade:
  assumes "\<forall>cmd. \<exists>r. run_cmd env cmd = Inr r"
  shows
    "(\<exists>results. run_pylint env root_dir = Inr results \<and>
        list_all2 (\<lambda>f r. fst r = f \<and>
          (\<forall>code out err.
             run_cmd env [executable env, U ''-m'', U ''pylint'', f, U ''--output-format=json'']
               = Inr (code, out, err) \<and>
             (loads env (or_else out (U ''[]'')) = None \<or>
              out = [] \<and> loads env (U ''[]'') = Some (JArr [])) \<longrightarrow>
             snd r = JArr []))
          (list_py_files env root_dir) results) \<and>
     (\<forall>code out err.
        run_cmd env [executable env, U ''-m'', U ''bandit'', U ''-r'', root_dir, U ''-f'', U ''json'']
          = Inr (code, out, err) \<and>
        (loads env (or_else out (U ''{}'')) = None \<or>
         out = [] \<and> loads env (U ''{}'') = Some (JObj [])) \<longrightarrow>
        (\<exists>b. run_bandit env root_dir = Inr b \<and> results_of b = JArr [])) \<and>
     (\<forall>code out err.
        run_cmd env [executable env, U ''-m'', U ''radon'', U ''cc'', U ''-j'', root_dir]
          = Inr (code, out, err) \<and>
        (loads env (or_else out (U ''{}'')) = None \<or>
         out = [] \<and> loads env (U ''{}'') = Some (JObj [])) \<longrightarrow>
        run_radon_complexity env root_dir = Inr (JObj [])) \<and>
     (\<forall>dir. clone_repo env git_url = Inr dir \<longrightarrow>
        (\<exists>a. analyze_repository env git_url = Inr a \<and> repo_dir a = dir))"
proof (intro conjI allI impI)
  from pylint_files_returns [OF assms, of "list_py_files env root_dir"]
  obtain results where
    rs: "pylint_files env (list_py_files env root_dir) = Inr results" and
    all: "list_all2 (\<lambda>f r. fst r = f \<and>
        (\<forall>code out err.
           run_cmd env [executable env, U ''-m'', U ''pylint'', f, U ''--output-format=json'']
             = Inr (code, out, err) \<longrightarrow>
           snd r = (case loads env (or_else out (U ''[]'')) of None \<Rightarrow> JArr [] | Some j \<Rightarrow> j)))
       (list_py_files env root_dir) results"
    by blast
  have "list_all2 (\<lambda>f r. fst r = f \<and>
          (\<forall>code out err.
             run_cmd env [executable env, U ''-m'', U ''pylint'', f, U ''--output-format=json'']
               = Inr (code, out, err) \<and>
             (loads env (or_else out (U ''[]'')) = None \<or>
              out = [] \<and> loads env (U ''[]'') = Some (JArr [])) \<longrightarrow>
             snd r = JArr []))
          (list_py_files env root_dir) results"
    using all by (rule list_all2_mono) (auto simp: or_else_def)
  then show "\<exists>results. run_pylint env root_dir = Inr results \<and>
        list_all2 (\<lambda>f r. fst r = f \<and>
          (\<forall>code out err.
             run_cmd env [executable env, U ''-m'', U ''pylint'', f, U ''--output-format=json'']
               = Inr (code, out, err) \<and>
             (loads env (or_else out (U ''[]'')) = None \<or>
              out = [] \<and> loads env (U ''[]'') = Some (JArr [])) \<longrightarrow>
             snd r = JArr []))
          (list_py_files env root_dir) results"
    using rs by (auto simp: run_pylint_def)
next
  fix code out err
  assume "run_cmd env [executable env, U ''-m'', U ''bandit'', U ''-r'', root_dir, U ''-f'', U ''json'']
          = Inr (code, out, err) \<and>
        (loads env (or_else out (U ''{}'')) = None \<or>
         out = [] \<and> loads env (U ''{}'') = Some (JObj []))"
  then show "\<exists>b. run_bandit env root_dir = Inr b \<and> results_of b = JArr []"
    by (auto simp: run_bandit_def results_of_def or_else_def)
next
  fix code out err
  assume "run_cmd env [executable env, U ''-m'', U ''radon'', U ''cc'', U ''-j'', root_dir]
          = Inr (code, out, err) \<and>
        (loads env (or_else out (U ''{}'')) = None \<or>
         out = [] \<and> loads env (U ''{}'') = Some (JObj []))"
  then show "run_radon_complexity env root_dir = Inr (JObj [])"
    by (auto simp: run_radon_complexity_def or_else_def)
next
  fix dir
  assume c: "clone_repo env git_url = Inr dir"
  from pylint_files_returns [OF assms, of "list_py_files env dir"]
  obtain p where p: "run_pylint env dir = Inr p" by (auto simp: run_pylint_def)
  have "\<exists>b. run_bandit env dir = Inr b"
    using assms [rule_format, of "[executable env, U ''-m'', U ''bandit'', U ''-r'', dir, U ''-f'', U ''json'']"]
    by (auto simp: run_bandit_def split: option.splits)
  then obtain b where b: "run_bandit env dir = Inr b" ..
  have "\<exists>r. run_radon_complexity env dir = Inr r"
    using assms [rule_format, of "[executable env, U ''-m'', U ''radon'', U ''cc'', U ''-j'', dir]"]
    by (auto simp: run_radon_complexity_def split: option.splits)
  then obtain r where r: "run_radon_complexity env dir = Inr r" ..
  show "\<exists>a. analyze_repository env git_url = Inr a \<and> repo_dir a = dir"
    using c p b r by (simp add: analyze_repository_def)
qed

lemma broken_tools_returns: "\<forall>cmd. \<exists>r. run_cmd broken_tools cmd = Inr r"
  by (simp add: broken_tools_def)

lemma broken_loads:
  "U ''Traceback: crash'' \<noteq> []"
  "loads broken_tools (U ''Traceback: crash'') = None"
  "loads broken_tools (U ''[]'') = Some (JArr [])"
  "loads broken_tools (U ''{}'') = Some (JObj [])"
  by (simp_all add: broken_tools_def U_def)

theorem analyzers_degrade_witness:
  "run_pylint broken_tools (U ''/tmp/devmate_1'') =
     Inr [(U ''a.py'', JArr []), (U ''b.py'', JArr []), (U ''c.py'', JArr [])] \<and>
   run_bandit broken_tools (U ''/tmp/devmate_1'') = Inr (JObj [(U ''results'', JArr [])]) \<and>
   run_radon_complexity broken_tools (U ''/tmp/devmate_1'') = Inr (JObj []) \<and>
   (\<exists>a. analyze_repository broken_tools (U ''https://example.org/r.git'') = Inr a)"
proof -
  have c: "run_cmd broken_tools cmd =
      Inr (1, if U ''b.py'' \<in> set cmd then [] else U ''Traceback: crash'', [])" for cmd
    by (simp add: broken_tools_def)
  have m: "U ''b.py'' \<notin> set [executable broken_tools, U ''-m'', U ''pylint'', U ''a.py'', U ''--output-format=json'']"
    "U ''b.py'' \<in> set [executable broken_tools, U ''-m'', U ''pylint'', U ''b.py'', U ''--output-format=json'']"
    "U ''b.py'' \<notin> set [executable broken_tools, U ''-m'', U ''pylint'', U ''c.py'', U ''--output-format=json'']"
    "U ''b.py'' \<notin> set [executable broken_tools, U ''-m'', U ''bandit'', U ''-r'', U ''/tmp/devmate_1'', U ''-f'', U ''json'']"
    "U ''b.py'' \<notin> set [executable broken_tools, U ''-m'', U ''radon'', U ''cc'', U ''-j'', U ''/tmp/devmate_1'']"
    by (simp_all add: broken_tools_def U_def)
  have f: "list_py_files broken_tools d = [U ''a.py'', U ''b.py'', U ''c.py'']" for d
    by (simp add: broken_tools_def)
  have p: "run_pylint broken_tools (U ''/tmp/devmate_1'') =
     Inr [(U ''a.py'', JArr []), (U ''b.py'', JArr []), (U ''c.py'', JArr [])]"
    using m by (simp add: run_pylint_def f c broken_loads or_else_def del: set_simps)
  have b: "run_bandit broken_tools (U ''/tmp/devmate_1'') = Inr (JObj [(U ''results'', JArr [])])"
    using m by (simp add: run_bandit_def c broken_loads or_else_def del: set_simps)
  have r: "run_radon_complexity broken_tools (U ''/tmp/devmate_1'') = Inr (JObj [])"
    using m by (simp add: run_radon_complexity_def c broken_loads or_else_def del: set_simps)
  have "clone_repo broken_tools (U ''https://example.org/r.git'') = Inr (U ''/tmp/devmate_1'')"
    by (simp add: broken_tools_def)
  then have "\<exists>a. analyze_repository broken_tools (U ''https://example.org/r.git'') = Inr a"
    using analyzers_degrade [OF broken_tools_returns, of "U ''/tmp/devmate_1''" "U ''https://example.org/r.git''"]
    by blast
  then show ?thesis using p b r by simp
qed

subsection \<open>Passes and paths\<close>



lemma str_nat_digits: "str_nat n \<noteq> [] \<and> list_all is_ascii_digit (str_nat n)"
proof (induction n rule: str_nat.induct)
  case (1 n)
  show ?case
  proof (cases "n < 10")
    case True
    then show ?thesis by (subst (1 2) str_nat.simps) (simp add: is_ascii_digit_def)
  next
    case False
    have "n mod 10 < 10" by simp
    then have "is_ascii_digit (48 + n mod 10)" unfolding is_ascii_digit_def by linarith
    then show ?thesis using False 1
      by (subst (1 2) str_nat.simps) simp
  qed
qed

lemma basename_join:
  assumes "\<forall>c\<in>set name. c \<noteq> 47 \<and> c \<noteq> 92"
  shows "basename win (path_join win a name) = name"
proof -
  have n: "\<forall>c\<in>set (rev name). c \<notin> set (separators win)"
    using assms by (auto simp: separators_def)
  have s: "hd (separators win) \<in> set (separators win)" by (simp add: separators_def)
  have "takeWhile (\<lambda>c. c \<notin> set (separators win)) (rev name @ hd (separators win) # rev a) = rev name"
    using n s by (simp add: takeWhile_append2 takeWhile_tail)
  then show ?thesis by (simp add: basename_def path_join_def)
qed

lemma report_name_plain:
  "\<forall>c\<in>set (U ''devmate_report_'' @ str_nat n @ U ''.pdf''). c \<noteq> 47 \<and> c \<noteq> 92"
proof -
  have "\<forall>c\<in>set (str_nat n). c \<noteq> 47 \<and> c \<noteq> 92"
    using str_nat_digits [of n] by (auto simp: list_all_iff is_ascii_digit_def)
  then show ?thesis by (auto simp: U_def)
qed

lemma relative_path:
  "0 \<le> time_time env \<Longrightarrow>
   U ''reports/'' @ basename (is_windows env) (out_path env) =
   U ''reports/devmate_report_'' @ str_nat (nat (time_time env)) @ U ''.pdf''"
  using basename_join [OF report_name_plain, of "is_windows env" _ "nat (time_time env)"]
  by (simp add: out_path_def str_int_def U_def)


lemma stamp: "str_nat (nat 1700000000) = U ''1700000000''"
  by (simp add: str_nat.simps U_def)






lemma texts_of_append [simp]: "texts_of (xs @ ys) = texts_of xs @ texts_of ys"
  by (simp add: texts_of_def)

lemma texts_of_Cons [simp]: "texts_of (a # xs) = action_text a @ texts_of xs"
  by (simp add: texts_of_def)

lemma texts_of_Nil [simp]: "texts_of [] = []"
  by (simp add: texts_of_def)

lemma texts_of_concat: "texts_of (concat xss) = concat (map texts_of xss)"
  by (induction xss) simp_all

lemma sanitize_str: "sanitize repr (OStr s) = filter (\<lambda>c. c \<le> 255) s"
  by (simp add: sanitize_def)

lemma sanitize_range: "\<forall>c\<in>set (sanitize repr text). c \<le> 255"
  by (simp add: sanitize_def Let_def)

lemma texts_render_code:
  "texts_of (render_code repr um ic) = [code_label (fst ic), sanitize repr (OStr (snd ic))]"
  by (simp add: render_code_def)

lemma texts_render_section_mode:
  "texts_of (render_section repr True s) = texts_of (render_section repr False s)"
  by (simp add: render_section_def Let_def texts_of_concat texts_render_code comp_def
      split: pyobj.splits)

lemma texts_render_pdf_mode:
  "texts_of (render_pdf repr now url suggs fo True) = texts_of (render_pdf repr now url suggs fo False)"
  by (simp add: render_pdf_def Let_def texts_of_concat comp_def texts_render_section_mode)

lemma plain_sanitize: "plain_or_label (sanitize repr text)"
  using sanitize_range by (simp add: plain_or_label_def)

lemma plain_label: "plain_or_label (code_label idx)"
  by (auto simp: plain_or_label_def)

lemma texts_render_section_plain:
  "\<forall>t\<in>set (texts_of (render_section repr um s)). plain_or_label t"
  by (auto simp: render_section_def Let_def texts_of_concat texts_render_code plain_sanitize plain_label
      split: pyobj.splits)

lemma texts_render_pdf_plain:
  "\<forall>t\<in>set (texts_of (render_pdf repr now url suggs fo um)). plain_or_label t"
  using texts_render_section_plain
  by (auto simp: render_pdf_def Let_def texts_of_concat plain_sanitize)

text \<open>
  Claim C8, as amended. \<open>sanitize\<close> does not depend on the rendering mode: on a string
  it deletes exactly the characters above code point 255 and keeps all others, in
  order, so that the characters from 128 to 255 survive in the fallback mode as well;
  nothing is replaced or transliterated. The two modes hand the same texts to the
  document. Every text handed to \<open>cell\<close> or \<open>multi_cell\<close> is sanitized in this way,
  the labels of the code excerpts apart.
\<close>

theorem sanitize_same_in_both_modes:
  "sanitize repr (OStr s) = filter (\<lambda>c. c \<le> 255) s \<and>
   subseq (sanitize repr (OStr s)) s \<and>
   (\<forall>c\<in>set (sanitize repr text). c \<le> 255) \<and>
   texts_of (render_pdf repr now url suggs fo True) =
     texts_of (render_pdf repr now url suggs fo False) \<and>
   (\<forall>t\<in>set (texts_of (render_pdf repr now url suggs fo unicode_mode)).
      (\<forall>c\<in>set t. c \<le> 255) \<or> (\<exists>idx. t = code_label idx))"
  using texts_render_pdf_plain [of repr now url suggs fo unicode_mode]
  by (simp add: sanitize_str sanitize_range texts_render_pdf_mode plain_or_label_def)

theorem sanitize_same_in_both_modes_witness:
  "sanitize no_repr (OStr [72, 233, 8211, 128161]) = [72, 233] \<and>
   233 \<in> set (sanitize no_repr (OStr [72, 233, 8211, 128161])) \<and> (233::nat) \<le> 255 \<and>
   texts_of (render_pdf no_repr (U ''now'') (U ''r'') [] [] True) =
     texts_of (render_pdf no_repr (U ''now'') (U ''r'') [] [] False)"
  using sanitize_same_in_both_modes [of no_repr "[72, 233, 8211, 128161]"
      "OStr [72, 233, 8211, 128161]" "U ''now''" "U ''r''" "[]" "[]" False]
  by simp

lemma code_scan_numeral: "code_scan (numeral k) (c # cs) = code_scan (pred_numeral k) cs"
  by (simp add: numeral_eq_Suc)

lemma fence_example:
  "extract_code_blocks (U ''```x = 1```'') = [U ''x = 1'']"
  "remove_code_blocks (U ''```x = 1```'') = []"
  by (simp_all add: extract_code_blocks_def remove_code_blocks_def block_at_def U_def strip_def
      is_space_def Let_def code_scan_numeral)

text \<open>
  Against claim C8 as stated: in the fallback mode the character 233 of the repository
  name reaches the document, since \<open>sanitize\<close> keeps it in either mode, while the
  dash 8211 of the title is deleted in either mode; and the label of a code excerpt
  is handed to \<open>cell\<close> with its character 128161.
\<close>

theorem sanitize_counterexample:
  "Call (MultiCell 0 7 (U ''Repository: caf'' @ [233] @ U ''\<newline>Generated on: now''))
     \<in> set (render_pdf no_repr (U ''now'') (U ''caf'' @ [233]) [] [] False) \<and>
   sanitize no_repr (OStr (U ''caf'' @ [233])) = U ''caf'' @ [233] \<and>
   sanitize no_repr (OStr (U ''DevMate '' @ [8211] @ U '' AI'')) = U ''DevMate  AI'' \<and>
   Call (Cell 0 6 ([128161] @ U '' Code Suggestion 1:'') True [])
     \<in> set (render_pdf no_repr (U ''now'') (U ''r'')
              [[(U ''suggestion'', OStr (U ''```x = 1```''))]] [] False)"
proof -
  have b: "sanitize no_repr (OStr (U ''caf'' @ [233])) = U ''caf'' @ [233]"
    by (simp add: sanitize_def U_def)
  have c: "sanitize no_repr (OStr (U ''DevMate '' @ [8211] @ U '' AI'')) = U ''DevMate  AI''"
    by (simp add: sanitize_def U_def)
  have l: "code_label 1 = [128161] @ U '' Code Suggestion 1:''"
    by (simp add: code_label_def str_nat.simps U_def)
  have m: "map_of [(U ''suggestion'', OStr (U ''```x = 1```''))] (U ''type'') = None"
    "map_of [(U ''suggestion'', OStr (U ''```x = 1```''))] (U ''suggestion'') = Some (OStr (U ''```x = 1```''))"
    by (simp_all add: U_def)
  have d: "Call (Cell 0 6 (code_label 1) True [])
      \<in> set (render_section no_repr False [(U ''suggestion'', OStr (U ''```x = 1```''))])"
    by (simp add: render_section_def Let_def dict_get_or_def m fence_example render_code_def
        del: map_of.simps)
  have "Call (MultiCell 0 7 (U ''Repository: caf'' @ [233] @ U ''\<newline>Generated on: now''))
     \<in> set (render_pdf no_repr (U ''now'') (U ''caf'' @ [233]) [] [] False)"
    by (simp add: render_pdf_def Let_def sanitize_def U_def)
  moreover have "Call (Cell 0 6 ([128161] @ U '' Code Suggestion 1:'') True [])
     \<in> set (render_pdf no_repr (U ''now'') (U ''r'')
              [[(U ''suggestion'', OStr (U ''```x = 1```''))]] [] False)"
    using d unfolding l by (simp add: render_pdf_def Let_def)
  ultimately show ?thesis using b c by simp
qed

lemma report_path_not_static:
  "outcome (generate_pdf_report renv repo_url suggs full_output) = Inr p \<Longrightarrow>
   p = U ''reports/'' @ basename (is_windows renv) (out_path renv) \<and> \<not> prefix (U ''static/'') p"
proof -
  assume a: "outcome (generate_pdf_report renv repo_url suggs full_output) = Inr p"
  then have "p = U ''reports/'' @ basename (is_windows renv) (out_path renv)"
    by (auto simp: generate_pdf_report_def Let_def split: option.splits prod.splits)
  moreover have "\<not> prefix (U ''static/'') (U ''reports/'' @ x)" for x
    by (simp add: U_def)
  ultimately show ?thesis by simp
qed

text \<open>
  Claim C9. Take a posted request with a repository address, an analysis that returns
  and a score that is extracted. Then the route commits exactly twice, once before
  \<open>generate_pdf_report\<close> is called and once after it: the first commit adds to the
  table a row with the address, the score and the path \<open>Generating...\<close>, and the
  second leaves in its place the same row with the final path. The row is there at the
  end whether rendering succeeded or not: its path is \<open>Error generating PDF\<close> when
  \<open>generate_pdf_report\<close> raised, and otherwise the relative path it returned.
\<close>

theorem placeholder_then_update:
  assumes "is_post req"
    and "strip (case form_repo_url req of None \<Rightarrow> [] | Some u \<Rightarrow> u) = repo_url"
    and "repo_url \<noteq> []"
    and "analyze_repo_with_agents env repo_url = Inr result_text"
    and "extract_score (obj_repr (renderer env)) result_text = Inr sc"
  shows "\<exists>final.
      events (index env req rows) =
        [Commit (rows @ [\<lparr>repo_name = repo_url, score = sc, pdf_path = U ''Generating...''\<rparr>]),
         RenderCalled,
         Commit (rows @ [\<lparr>repo_name = repo_url, score = sc, pdf_path = final\<rparr>])] \<and>
      table (index env req rows) =
        rows @ [\<lparr>repo_name = repo_url, score = sc, pdf_path = final\<rparr>] \<and>
      (\<forall>e. outcome (generate_pdf_report (renderer env) repo_url [summary_section result_text]
                       result_text) = Inl e \<longrightarrow>
           final = U ''Error generating PDF'') \<and>
      (\<forall>p. outcome (generate_pdf_report (renderer env) repo_url [summary_section result_text]
                       result_text) = Inr p \<longrightarrow>
           final = p \<and> p = U ''reports/'' @ basename (is_windows (renderer env)) (out_path (renderer env)))"
proof (cases "outcome (generate_pdf_report (renderer env) repo_url [summary_section result_text] result_text)")
  case (Inl e)
  then show ?thesis using assms
    by (intro exI [of _ "U ''Error generating PDF''"]) (simp add: index_def store_report_def Let_def)
next
  case (Inr p)
  note pp = report_path_not_static [OF Inr]
  from pp have p: "p = U ''reports/'' @ basename (is_windows (renderer env)) (out_path (renderer env))"
    by (rule conjunct1)
  from pp have np: "\<not> prefix (U ''static/'') p" by (rule conjunct2)
  have "store_report env repo_url result_text rows
          \<lparr>repo_name = repo_url, score = sc, pdf_path = U ''Generating...''\<rparr> =
        rows @ [\<lparr>repo_name = repo_url, score = sc, pdf_path = p\<rparr>]"
    using Inr np by (simp add: store_report_def)
  then show ?thesis using assms Inr p
    by (intro exI [of _ p]) (simp add: index_def Let_def)
qed

lemma run_actions_quiet:
  "(\<And>made c. fpdf_call env made c = None) \<Longrightarrow> \<forall>e. Raise e \<notin> set as \<Longrightarrow>
   fst (run_actions env made as) = None"
proof (induction as arbitrary: made)
  case Nil
  then show ?case by simp
next
  case (Cons a as)
  then show ?case by (cases a) auto
qed

lemma render_section_no_raise:
  "dict_get_or s (U ''type'') ONone = OStr t \<Longrightarrow> Raise e \<notin> set (render_section repr um s)"
  by (auto simp: render_section_def Let_def render_code_def)

lemma summary_type:
  "dict_get_or (summary_section x) (U ''type'') ONone = OStr (U ''summary'')"
  by (simp add: summary_section_def dict_get_or_def)

lemma summary_pass_no_raise:
  "Raise e \<notin> set (fallback_pass env url [summary_section x] fo)"
  using render_section_no_raise [OF summary_type]
  by (simp add: fallback_pass_def render_pdf_def Let_def)

lemma sample_strip: "strip (U '' https://github.com/a/b '') = U ''https://github.com/a/b''"
  by (simp add: strip_def is_space_def U_def)

lemma sample_score:
  "extract_score repr (OList [ODict [(U ''type'', OStr (U ''summary'')),
       (U ''suggestion'', OStr (U ''Overall score: 8.5/10 done''))]]) = Inr (Finite (17 / 2))"
proof -
  have "dict_get [(U ''type'', OStr (U ''summary'')),
       (U ''suggestion'', OStr (U ''Overall score: 8.5/10 done''))] (U ''suggestion'')
      = OStr (U ''Overall score: 8.5/10 done'')"
    by (simp add: dict_get_def U_def)
  then show ?thesis by (simp add: extract_score_def score_text_def scan_example_1)
qed

lemma no_fonts_outcome:
  "outcome (generate_pdf_report no_fonts url [summary_section x] fo) =
     Inr (U ''reports/devmate_report_1700000000.pdf'')"
proof -
  have f: "run_actions no_fonts [] (unicode_pass no_fonts url [summary_section x] fo) =
     (Some (Raised (RuntimeError (U ''No Unicode font found; forcing fallback.''))), [])"
    by (simp add: unicode_pass_def find_font_def no_fonts_def find_None_iff)
  have "fst (run_actions no_fonts [] (fallback_pass no_fonts url [summary_section x] fo)) = None"
    by (rule run_actions_quiet) (simp_all add: no_fonts_def summary_pass_no_raise)
  then obtain d2 where s: "run_actions no_fonts [] (fallback_pass no_fonts url [summary_section x] fo) = (None, d2)"
    by (cases "run_actions no_fonts [] (fallback_pass no_fonts url [summary_section x] fo)") auto
  have t: "0 \<le> time_time no_fonts" "nat (time_time no_fonts) = nat 1700000000" "makedirs no_fonts = None"
    by (simp_all add: no_fonts_def)
  have n: "U ''reports/devmate_report_'' @ U ''1700000000'' @ U ''.pdf'' =
           U ''reports/devmate_report_1700000000.pdf''"
    by (simp add: U_def)
  show ?thesis
    using f s t(3) relative_path [OF t(1)] unfolding t(2) stamp n
    by (simp add: generate_pdf_report_def)
qed

lemma broken_pdf_outcome:
  "outcome (generate_pdf_report broken_pdf url suggs fo) = Inl (Raised (RuntimeError (U ''disk full'')))"
proof -
  have f: "run_actions broken_pdf [] (unicode_pass broken_pdf url suggs fo) =
     (Some (Raised (RuntimeError (U ''No Unicode font found; forcing fallback.''))), [])"
    by (simp add: unicode_pass_def find_font_def broken_pdf_def no_fonts_def find_None_iff)
  have s: "fst (run_actions broken_pdf [] (fallback_pass broken_pdf url suggs fo)) =
      Some (Raised (RuntimeError (U ''disk full'')))"
    by (simp add: fallback_pass_def render_pdf_def Let_def broken_pdf_def)
  have "makedirs broken_pdf = None" by (simp add: broken_pdf_def no_fonts_def)
  then show ?thesis using f s
    by (cases "run_actions broken_pdf [] (fallback_pass broken_pdf url suggs fo)")
       (simp add: generate_pdf_report_def)
qed

theorem placeholder_then_update_witness:
  "table (index (sample_web no_fonts) sample_request []) =
     [\<lparr>repo_name = U ''https://github.com/a/b'', score = Finite (17 / 2),
       pdf_path = U ''reports/devmate_report_1700000000.pdf''\<rparr>] \<and>
   table (index (sample_web broken_pdf) sample_request []) =
     [\<lparr>repo_name = U ''https://github.com/a/b'', score = Finite (17 / 2),
       pdf_path = U ''Error generating PDF''\<rparr>] \<and>
   hd (events (index (sample_web broken_pdf) sample_request [])) =
     Commit [\<lparr>repo_name = U ''https://github.com/a/b'', score = Finite (17 / 2),
              pdf_path = U ''Generating...''\<rparr>]"
proof -
  let ?res = "OList [ODict [(U ''type'', OStr (U ''summary'')),
                            (U ''suggestion'', OStr (U ''Overall score: 8.5/10 done''))]]"
  let ?url = "U ''https://github.com/a/b''"
  have r: "is_post sample_request"
    "strip (case form_repo_url sample_request of None \<Rightarrow> [] | Some u \<Rightarrow> u) = ?url"
    by (simp_all add: sample_request_def sample_strip)
  have u: "?url \<noteq> []" by (simp add: U_def)
  have a: "analyze_repo_with_agents (sample_web renv) ?url = Inr ?res" for renv
    by (simp add: sample_web_def)
  have s: "extract_score (obj_repr (renderer (sample_web renv))) ?res = Inr (Finite (17 / 2))" for renv
    by (rule sample_score)
  have g: "renderer (sample_web renv) = renv" for renv by (simp add: sample_web_def)
  from placeholder_then_update [OF r u a s, of no_fonts "[]"]
  have 1: "table (index (sample_web no_fonts) sample_request []) =
     [\<lparr>repo_name = ?url, score = Finite (17 / 2),
       pdf_path = U ''reports/devmate_report_1700000000.pdf''\<rparr>]"
    unfolding g using no_fonts_outcome [of ?url ?res ?res] by auto
  from placeholder_then_update [OF r u a s, of broken_pdf "[]"]
  have 2: "table (index (sample_web broken_pdf) sample_request []) =
     [\<lparr>repo_name = ?url, score = Finite (17 / 2), pdf_path = U ''Error generating PDF''\<rparr>] \<and>
   hd (events (index (sample_web broken_pdf) sample_request [])) =
     Commit [\<lparr>repo_name = ?url, score = Finite (17 / 2), pdf_path = U ''Generating...''\<rparr>]"
    unfolding g using broken_pdf_outcome [of ?url "[summary_section ?res]" ?res] by auto
  show ?thesis using 1 2 by simp
qed

end
